theory Spec2Isabelle
  imports Main "HOL-Library.Word"
begin

section \<open>C library primitives used by the shim\<close>

text \<open>
  C strings are modelled as \<open>string\<close> (a list of bytes); a pointer to a string that may
  be \<open>NULL\<close> is a \<open>string option\<close>.  Caller memory is a map from addresses to bytes; the
  null pointer is address \<open>0\<close>.  Sizes (\<open>size_t\<close>) are natural numbers.
\<close>

type_synonym addr = nat
type_synonym byte = "8 word"
type_synonym mem = "addr \<Rightarrow> byte"

text \<open>\<open>memset(p, v, n)\<close> and \<open>memcpy(dst, src, n)\<close>, the source bytes given by offset.\<close>

definition memset :: "mem \<Rightarrow> addr \<Rightarrow> byte \<Rightarrow> nat \<Rightarrow> mem" where
  "memset m p v n = (\<lambda>a. if p \<le> a \<and> a < p + n then v else m a)"


text \<open>
  \<open>snprintf(buf, size, fmt, ...)\<close> where the formatted text is \<open>s\<close>: the return value is
  the length of \<open>s\<close> (negative when it does not fit an \<open>int\<close>), and the buffer receives the
  first \<open>size - 1\<close> bytes of \<open>s\<close> followed by the terminator; with \<open>size = 0\<close> nothing is
  stored.
\<close>

definition snprintf_ret :: "string \<Rightarrow> int" where
  "snprintf_ret s = (if 2147483647 < length s then - 1 else int (length s))"

definition snprintf_buf :: "string \<Rightarrow> nat \<Rightarrow> string \<Rightarrow> string" where
  "snprintf_buf old n s = (if n = 0 then old else take (n - 1) s)"

definition isspace :: "char \<Rightarrow> bool" where
  "isspace c = (c = CHR '' '' \<or> c = CHR 0x09 \<or> c = CHR 0x0A \<or> c = CHR 0x0B
                \<or> c = CHR 0x0C \<or> c = CHR 0x0D)"

definition isdigit :: "char \<Rightarrow> bool" where
  "isdigit c = (48 \<le> (of_char c :: nat) \<and> (of_char c :: nat) \<le> 57)"

text \<open>
  \<open>atoi\<close> as glibc implements it, \<open>(int) strtol(s, NULL, 10)\<close>: leading white space is
  skipped, one optional sign is read, then the longest run of decimal digits; the value
  saturates at the range of \<open>long\<close> (64 bits) and is then truncated to 32 bits.  With no
  digit at all the result is \<open>0\<close>.
\<close>

fun atoi_digits :: "int \<Rightarrow> string \<Rightarrow> int" where
  "atoi_digits acc [] = acc"
| "atoi_digits acc (c # cs) =
     (if isdigit c then atoi_digits (10 * acc + (int (of_char c) - 48)) cs else acc)"

definition strtol10 :: "string \<Rightarrow> int" where
  "strtol10 s =
     (let t = dropWhile isspace s;
          v = (case t of
                 [] \<Rightarrow> 0
               | c # r \<Rightarrow>
                   if c = CHR ''-'' then - atoi_digits 0 r
                   else if c = CHR ''+'' then atoi_digits 0 r
                   else atoi_digits 0 t)
      in max (- 9223372036854775808) (min 9223372036854775807 v))"

definition atoi :: "string \<Rightarrow> int" where
  "atoi s = sint (word_of_int (strtol10 s) :: 32 word)"

text \<open>
  POSIX \<open>basename\<close> (the one \<open>libgen.h\<close> declares): trailing slashes are dropped and the
  part after the last remaining slash is returned; the empty string gives \<open>"."\<close> and a
  string of slashes gives \<open>"/"\<close>.  The resolver below takes its \<open>basename\<close> as a parameter;
  this definition is the instance used in the examples.
\<close>

definition posix_basename :: "string \<Rightarrow> string" where
  "posix_basename s =
     (if s = [] then ''.''
      else let t = rev (dropWhile (\<lambda>c. c = CHR ''/'') (rev s))
           in if t = [] then ''/''
              else rev (takeWhile (\<lambda>c. c \<noteq> CHR ''/'') (rev t)))"

section \<open>Model path resolver (\<open>model_resolver.c\<close>)\<close>

text \<open>
  The text written to the diagnostic stream when the resolved file is not readable.  One
  list element per printed line; the box-drawing frame around the lines is left out.
\<close>

definition not_found_diag :: "string \<Rightarrow> string \<Rightarrow> string option \<Rightarrow> string \<Rightarrow> string list" where
  "not_found_diag original_path resolved dir sfx =
     [''neuron-shim: MODEL FILE NOT FOUND'',
      ''Application requested:'',
      ''    '' @ original_path,
      ''Shim looked for:'',
      ''    '' @ resolved]
     @ (case dir of
          Some d \<Rightarrow>
            if d \<noteq> [] then
              [''model_dir is set to:'',
               ''    '' @ d,
               ''To fix, place your converted model there:'',
               ''    cp your_model'' @ sfx @ '' '' @ resolved]
            else
              [''To fix, place the converted model next to the original:'',
               ''    cp your_model'' @ sfx @ '' '' @ resolved,
               ''Or set model_dir in neuron-shim.conf to redirect:'',
               ''    model_dir = /opt/models'']
        | None \<Rightarrow>
            [''To fix, place the converted model next to the original:'',
             ''    cp your_model'' @ sfx @ '' '' @ resolved,
             ''Or set model_dir in neuron-shim.conf to redirect:'',
             ''    model_dir = /opt/models''])"

text \<open>
  The string both \<open>snprintf\<close> calls format.  With a redirect directory the original path
  first goes through the local buffer \<open>tmp[1024]\<close>, so \<open>basename\<close> sees at most its first
  1023 bytes.
\<close>

definition resolve_format :: "(string \<Rightarrow> string) \<Rightarrow> string \<Rightarrow> string \<Rightarrow> string option \<Rightarrow> string" where
  "resolve_format bn original_path sfx dir =
     (case dir of
        Some d \<Rightarrow>
          if d \<noteq> [] then
            let tmp = snprintf_buf [] 1024 original_path;
                base = bn tmp;
                dir_len = length d;
                sep = (if dir_len > 0 \<and> d ! (dir_len - 1) = CHR ''/'' then [] else ''/'')
            in d @ sep @ base @ sfx
          else original_path @ sfx
      | None \<Rightarrow> original_path @ sfx)"

text \<open>
  \<open>neuron_shim_resolve_model\<close>.  Parameters: the C library's \<open>basename\<close>, the file system
  (\<open>access(path, R_OK) == 0\<close>), the three input strings, the output buffer (\<open>None\<close> for a
  null pointer, otherwise its previous contents) and its size.  Result: the return code,
  the output buffer afterwards, and the lines written to \<open>stderr\<close>.
\<close>

definition neuron_shim_resolve_model ::
  "(string \<Rightarrow> string) \<Rightarrow> (string \<Rightarrow> bool) \<Rightarrow> string option \<Rightarrow> string option \<Rightarrow>
   string option \<Rightarrow> string option \<Rightarrow> nat \<Rightarrow> int \<times> string option \<times> string list" where
  "neuron_shim_resolve_model bn readable original_path sfx dir resolved resolved_len =
     (case original_path of
        None \<Rightarrow> (- 1, resolved, [])
      | Some p \<Rightarrow>
     (case sfx of
        None \<Rightarrow> (- 1, resolved, [])
      | Some s \<Rightarrow>
     (case resolved of
        None \<Rightarrow> (- 1, resolved, [])
      | Some old \<Rightarrow>
          let txt = resolve_format bn p s dir;
              written = snprintf_ret txt;
              buf = snprintf_buf old resolved_len txt
          in if written < 0 \<or> int resolved_len \<le> written then
               (- 1, Some buf, [''[neuron-shim] ERROR: resolved path too long''])
             else if \<not> readable buf then
               (- 1, Some buf, not_found_diag p buf dir s)
             else (0, Some buf, []))))"

text \<open>
  The resolution rule in the words of the specification: \<open>P + S\<close> without a redirect
  directory, and \<open>D + "/" + baseName(P) + S\<close> with one, the separator only when \<open>D\<close> does
  not already end in it.
\<close>

definition spec_resolve :: "(string \<Rightarrow> string) \<Rightarrow> string \<Rightarrow> string \<Rightarrow> string option \<Rightarrow> string" where
  "spec_resolve bn P S D =
     (if D = None \<or> D = Some [] then P @ S
      else the D @ (if last (the D) = CHR ''/'' then [] else ''/'') @ bn P @ S)"

section \<open>Configuration loader (\<open>config.c\<close>)\<close>

record NeuronShimConfig =
  backend :: string
  suffix :: string
  model_dir :: string
  threads :: int
  force_cpu :: bool
  log_level :: int

text \<open>The compiled-in defaults: the initialiser of the static \<open>g_config\<close>.\<close>

definition g_config_init :: NeuronShimConfig where
  "g_config_init =
     \<lparr>backend = ''auto'', suffix = ''auto'', model_dir = [], threads = 4,
      force_cpu = False, log_level = 3\<rparr>"

text \<open>
  \<open>fgets(line, 512, f)\<close> called until end of file: each call returns the bytes up to and
  including the next newline, but at most 511 of them.  \<open>fgets_lines n acc rest\<close> has
  \<open>n\<close> bytes of room left in the current line and \<open>acc\<close> (reversed) already read.
\<close>

fun fgets_lines :: "nat \<Rightarrow> string \<Rightarrow> string \<Rightarrow> string list" where
  "fgets_lines n acc [] = (if acc = [] then [] else [rev acc])"
| "fgets_lines n acc (c # cs) =
     (if c = CHR 0x0A \<or> n \<le> 1 then rev (c # acc) # fgets_lines 511 [] cs
      else fgets_lines (n - 1) (c # acc) cs)"

text \<open>
  \<open>sscanf(p, "%63[^= ] = %511s", key, value) == 2\<close>: a non-empty key of at most 63 bytes
  other than \<open>=\<close> and space, optional white space, a literal \<open>=\<close>, optional white space,
  and a non-empty value of at most 511 bytes up to the next white space.
\<close>

definition sscanf_key_value :: "string \<Rightarrow> (string \<times> string) option" where
  "sscanf_key_value p =
     (let key = take 63 (takeWhile (\<lambda>c. c \<noteq> CHR ''='' \<and> c \<noteq> CHR '' '') p)
      in if key = [] then None
         else (case dropWhile isspace (drop (length key) p) of
                 [] \<Rightarrow> None
               | c # r \<Rightarrow>
                   if c \<noteq> CHR ''='' then None
                   else let v = take 511 (takeWhile (\<lambda>c. \<not> isspace c) (dropWhile isspace r))
                        in if v = [] then None else Some (key, v)))"

text \<open>The chain of \<open>strcmp\<close> tests on the key: the field a recognised key stores into.\<close>

definition config_assign :: "string \<Rightarrow> string \<Rightarrow> NeuronShimConfig \<Rightarrow> NeuronShimConfig" where
  "config_assign key val g =
     (if key = ''backend'' then g\<lparr>backend := take 31 val\<rparr>
      else if key = ''suffix'' then g\<lparr>suffix := take 31 val\<rparr>
      else if key = ''model_dir'' then g\<lparr>model_dir := snprintf_buf (model_dir g) 512 val\<rparr>
      else if key = ''threads'' then g\<lparr>threads := atoi val\<rparr>
      else if key = ''force_cpu'' then g\<lparr>force_cpu := (val = ''true'' \<or> val = ''1'')\<rparr>
      else if key = ''log_level'' then g\<lparr>log_level := atoi val\<rparr>
      else g)"

text \<open>
  What one line of a file contributes: nothing for a blank line, a comment or a line that
  \<open>sscanf\<close> does not match.  The line is read as a C string, so it ends at its first
  zero byte.
\<close>

definition line_key_value :: "string \<Rightarrow> (string \<times> string) option" where
  "line_key_value line =
     (let p = dropWhile (\<lambda>c. c = CHR '' '' \<or> c = CHR 0x09)
                (takeWhile (\<lambda>c. c \<noteq> CHR 0x00) line)
      in (case p of
            [] \<Rightarrow> None
          | c # r \<Rightarrow> if c = CHR ''#'' \<or> c = CHR 0x0A then None else sscanf_key_value p))"

definition parse_config_line :: "string \<Rightarrow> NeuronShimConfig \<Rightarrow> NeuronShimConfig" where
  "parse_config_line line g =
     (case line_key_value line of None \<Rightarrow> g | Some (k, v) \<Rightarrow> config_assign k v g)"

text \<open>
  \<open>parse_config_file\<close>: the file is \<open>None\<close> when \<open>fopen\<close> fails, otherwise its contents.
\<close>

definition parse_config_file :: "string option \<Rightarrow> NeuronShimConfig \<Rightarrow> NeuronShimConfig" where
  "parse_config_file file g =
     (case file of
        None \<Rightarrow> g
      | Some content \<Rightarrow> fold parse_config_line (fgets_lines 511 [] content) g)"

text \<open>The six \<open>getenv\<close> overrides that follow the two files.\<close>

definition env_override :: "(string \<Rightarrow> string option) \<Rightarrow> NeuronShimConfig \<Rightarrow> NeuronShimConfig" where
  "env_override env g0 =
     (let g1 = (case env ''NEURON_SHIM_BACKEND'' of
                  None \<Rightarrow> g0 | Some v \<Rightarrow> g0\<lparr>backend := take 31 v\<rparr>);
          g2 = (case env ''NEURON_SHIM_SUFFIX'' of
                  None \<Rightarrow> g1 | Some v \<Rightarrow> g1\<lparr>suffix := take 31 v\<rparr>);
          g3 = (case env ''NEURON_SHIM_MODEL_DIR'' of
                  None \<Rightarrow> g2 | Some v \<Rightarrow> g2\<lparr>model_dir := snprintf_buf (model_dir g2) 512 v\<rparr>);
          g4 = (case env ''NEURON_SHIM_NUM_THREADS'' of
                  None \<Rightarrow> g3 | Some v \<Rightarrow> g3\<lparr>threads := atoi v\<rparr>);
          g5 = (case env ''NEURON_SHIM_FORCE_CPU'' of
                  None \<Rightarrow> g4 | Some v \<Rightarrow> g4\<lparr>force_cpu := (v = ''1'')\<rparr>);
          g6 = (case env ''NEURON_SHIM_LOG_LEVEL'' of
                  None \<Rightarrow> g5 | Some v \<Rightarrow> g5\<lparr>log_level := atoi v\<rparr>)
      in g6)"

text \<open>
  \<open>neuron_shim_config_load\<close>, given the file system (a path to the contents of a file
  that can be opened) and the environment.  It starts from the compiled-in defaults.
\<close>

definition neuron_shim_config_load ::
  "(string \<Rightarrow> string option) \<Rightarrow> (string \<Rightarrow> string option) \<Rightarrow> NeuronShimConfig" where
  "neuron_shim_config_load fs env =
     env_override env
       (parse_config_file (fs ''./neuron-shim.conf'')
          (parse_config_file (fs ''/etc/neuron-shim.conf'') g_config_init))"

definition neuron_shim_config_get_suffix :: "NeuronShimConfig \<Rightarrow> string" where
  "neuron_shim_config_get_suffix cfg =
     (if suffix cfg \<noteq> ''auto'' then suffix cfg
      else if backend cfg = ''tflite'' then ''.tflite''
      else ''.onnx'')"

text \<open>
  The precedence rule in the words of the specification.  \<open>file_setting file key\<close> is the
  value a file sets for a key: that of the last line of the file which assigns the key.
  \<open>precedence\<close> picks the environment's value when there is one, then the local file's,
  then the system file's, then the default.
\<close>

definition file_setting :: "string option \<Rightarrow> string \<Rightarrow> string option" where
  "file_setting file key =
     (case file of
        None \<Rightarrow> None
      | Some content \<Rightarrow>
          (let kvs = filter (\<lambda>kv. fst kv = key)
                       (List.map_filter line_key_value (fgets_lines 511 [] content))
           in if kvs = [] then None else Some (snd (last kvs))))"

definition precedence :: "'a option \<Rightarrow> 'a option \<Rightarrow> 'a option \<Rightarrow> 'a \<Rightarrow> 'a" where
  "precedence from_env from_local from_system dflt =
     (case from_env of
        Some v \<Rightarrow> v
      | None \<Rightarrow>
          (case from_local of
             Some v \<Rightarrow> v
           | None \<Rightarrow> (case from_system of Some v \<Rightarrow> v | None \<Rightarrow> dflt)))"

text \<open>
  What a text holds for \<open>atoi\<close>, stated apart from the code: after leading white space
  and one optional sign comes a (possibly empty) run of decimal digits.  \<open>after_sign\<close>
  gives whether the sign is a minus and the text after the sign; \<open>has_leading_digit\<close>
  tells whether the run of digits is non-empty; \<open>leading_integer\<close> is the decimal value of
  the run with the sign applied, whatever text follows the run (\<open>0\<close> for an empty run).
\<close>

definition after_sign :: "string \<Rightarrow> bool \<times> string" where
  "after_sign s =
     (case dropWhile isspace s of
        [] \<Rightarrow> (False, [])
      | c # r \<Rightarrow>
          if c = CHR ''-'' then (True, r)
          else if c = CHR ''+'' then (False, r)
          else (False, c # r))"

definition has_leading_digit :: "string \<Rightarrow> bool" where
  "has_leading_digit s = (case snd (after_sign s) of [] \<Rightarrow> False | d # _ \<Rightarrow> isdigit d)"

definition decimal_value :: "string \<Rightarrow> int" where
  "decimal_value ds = foldl (\<lambda>a c. 10 * a + (int (of_char c) - 48)) 0 ds"

definition leading_integer :: "string \<Rightarrow> int" where
  "leading_integer s =
     (let n = decimal_value (takeWhile isdigit (snd (after_sign s)))
      in if fst (after_sign s) then - n else n)"

text \<open>
  The text that decides a setting: the environment's when the variable is set, else the
  local file's, else the system file's.
\<close>

definition supplied :: "string option \<Rightarrow> string option \<Rightarrow> string option \<Rightarrow> string option" where
  "supplied from_env from_local from_system =
     (case from_env of
        Some v \<Rightarrow> Some v
      | None \<Rightarrow> (case from_local of Some v \<Rightarrow> Some v | None \<Rightarrow> from_system))"

section \<open>Backend selector (\<open>backend_selector.c\<close>) and global initialisation\<close>

datatype backend_id = Onnx | Tflite | Stub

definition backend_name :: "backend_id \<Rightarrow> string" where
  "backend_name b = (case b of Onnx \<Rightarrow> ''onnx'' | Tflite \<Rightarrow> ''tflite'' | Stub \<Rightarrow> ''stub'')"

text \<open>
  \<open>neuron_shim_select_backend\<close>.  \<open>has_onnx\<close> and \<open>has_tflite\<close> are the build flags
  \<open>SHIM_HAS_ONNX\<close> and \<open>SHIM_HAS_TFLITE\<close>; \<open>dlopen_ok lib\<close> tells whether one of the two
  \<open>dlopen\<close> attempts on \<open>lib\<close> returns a handle.
\<close>

definition auto_detect :: "bool \<Rightarrow> bool \<Rightarrow> (string \<Rightarrow> bool) \<Rightarrow> backend_id" where
  "auto_detect has_onnx has_tflite dlopen_ok =
     (if has_onnx \<and> dlopen_ok ''libonnxruntime.so'' then Onnx
      else if has_tflite \<and> dlopen_ok ''libtensorflowlite_c.so'' then Tflite
      else Stub)"

definition neuron_shim_select_backend ::
  "bool \<Rightarrow> bool \<Rightarrow> (string \<Rightarrow> bool) \<Rightarrow> string option \<Rightarrow> backend_id" where
  "neuron_shim_select_backend has_onnx has_tflite dlopen_ok nm =
     (case nm of
        None \<Rightarrow> auto_detect has_onnx has_tflite dlopen_ok
      | Some n \<Rightarrow>
          if has_onnx \<and> n = ''onnx'' then Onnx
          else if has_tflite \<and> n = ''tflite'' then Tflite
          else if n = ''stub'' then Stub
          else auto_detect has_onnx has_tflite dlopen_ok)"

text \<open>The process-wide state \<open>shim_global_init\<close> sets up (\<open>shim_runtime.c\<close>).\<close>

record shim_globals =
  g_config :: NeuronShimConfig
  g_backend :: backend_id
  g_suffix :: string
  g_log_level :: int

definition shim_global_init ::
  "bool \<Rightarrow> bool \<Rightarrow> (string \<Rightarrow> bool) \<Rightarrow> (string \<Rightarrow> string option) \<Rightarrow>
   (string \<Rightarrow> string option) \<Rightarrow> shim_globals" where
  "shim_global_init has_onnx has_tflite dlopen_ok fs env =
     (let cfg = neuron_shim_config_load fs env;
          b = neuron_shim_select_backend has_onnx has_tflite dlopen_ok
                (if backend cfg = ''auto'' then None else Some (backend cfg))
      in \<lparr>g_config = cfg, g_backend = b,
          g_suffix = neuron_shim_config_get_suffix cfg,
          g_log_level = log_level cfg\<rparr>)"

text \<open>
  The extension each backend loads, in the words of the specification: the TFLite backend
  its native \<open>.tflite\<close>, every other backend \<open>.onnx\<close>.
\<close>

definition spec_backend_suffix :: "backend_id \<Rightarrow> string" where
  "spec_backend_suffix b = (if b = Tflite then ''.tflite'' else ''.onnx'')"

section \<open>Stub backend (\<open>backend_stub.c\<close>)\<close>

text \<open>
  \<open>StubContext\<close>.  The two tables have \<open>MAX_TENSORS = 32\<close> entries; they are functions of
  the index, read and written below index 32 only.  An output entry is the pair of its
  \<open>size\<close> and its \<open>buf\<close>.  The lines the stub prints to \<open>stderr\<close> are not modelled.
\<close>

record StubContext =
  model_path :: string
  inputs :: "nat \<Rightarrow> nat"
  outputs :: "nat \<Rightarrow> nat \<times> addr"
  input_count :: int
  output_count :: int
  inference_count :: "32 word"

text \<open>\<open>stub_create\<close>: the context \<open>calloc\<close> returns, all fields zero.\<close>

definition stub_create :: "int \<times> StubContext" where
  "stub_create =
     (0, \<lparr>model_path = [], inputs = (\<lambda>i. 0), outputs = (\<lambda>i. (0, 0)), input_count = 0,
          output_count = 0, inference_count = 0\<rparr>)"

definition stub_load_from_file :: "StubContext \<Rightarrow> string \<Rightarrow> int \<times> StubContext" where
  "stub_load_from_file c path =
     (0, c\<lparr>model_path := snprintf_buf (model_path c) 1024 path,
            input_count := 1, output_count := 1\<rparr>)"

definition stub_get_input_count :: "StubContext \<Rightarrow> int \<times> int" where
  "stub_get_input_count c = (0, if input_count c > 0 then input_count c else 1)"

definition stub_get_output_count :: "StubContext \<Rightarrow> int \<times> int" where
  "stub_get_output_count c = (0, if output_count c > 0 then output_count c else 1)"

text \<open>
  The index is a C \<open>int\<close> and the only test is \<open>index < MAX_TENSORS\<close>.  A negative index
  reads or writes before the table, which is undefined behaviour: these functions
  return \<open>None\<close> there.  Otherwise the result is the return code with the value stored
  through the out-pointer, or with the updated context.
\<close>

definition stub_get_input_size :: "StubContext \<Rightarrow> int \<Rightarrow> (int \<times> nat) option" where
  "stub_get_input_size c index =
     (if index < 0 then None
      else Some (0, if index < 32 \<and> inputs c (nat index) > 0 then inputs c (nat index)
                    else 1024))"

definition stub_get_output_size :: "StubContext \<Rightarrow> int \<Rightarrow> (int \<times> nat) option" where
  "stub_get_output_size c index =
     (if index < 0 then None
      else Some (0, if index < 32 \<and> fst (outputs c (nat index)) > 0
                    then fst (outputs c (nat index)) else 1024))"

definition stub_set_input :: "StubContext \<Rightarrow> int \<Rightarrow> addr \<Rightarrow> nat \<Rightarrow> (int \<times> StubContext) option" where
  "stub_set_input c index buf sz =
     (if index < 0 then None
      else if index < 32 then
        Some (0, c\<lparr>inputs := (inputs c)(nat index := sz),
                    input_count := (if index \<ge> input_count c then index + 1 else input_count c)\<rparr>)
      else Some (0, c))"

definition stub_set_output :: "StubContext \<Rightarrow> int \<Rightarrow> addr \<Rightarrow> nat \<Rightarrow> (int \<times> StubContext) option" where
  "stub_set_output c index buf sz =
     (if index < 0 then None
      else if index < 32 then
        Some (0, c\<lparr>outputs := (outputs c)(nat index := (sz, buf)),
                    output_count := (if index \<ge> output_count c then index + 1 else output_count c)\<rparr>)
      else Some (0, c))"

text \<open>The loop of \<open>stub_invoke\<close> over the output table, from index \<open>i\<close> on.\<close>

function stub_zero_outputs :: "StubContext \<Rightarrow> nat \<Rightarrow> mem \<Rightarrow> mem" where
  "stub_zero_outputs c i m =
     (if int i < output_count c \<and> i < 32 then
        stub_zero_outputs c (i + 1)
          (if snd (outputs c i) \<noteq> 0 \<and> fst (outputs c i) > 0
           then memset m (snd (outputs c i)) 0 (fst (outputs c i)) else m)
      else m)"
  by pat_completeness auto
termination
  by (relation "measure (\<lambda>(c, i, m). 32 - i)") auto

definition stub_invoke :: "StubContext \<Rightarrow> mem \<Rightarrow> int \<times> StubContext \<times> mem" where
  "stub_invoke c m =
     (0, c\<lparr>inference_count := inference_count c + 1\<rparr>, stub_zero_outputs c 0 m)"

text \<open>
  A caller of the stub: a sequence of binding and inference calls on one context, with
  the caller free to write to its own memory in between.  A call with undefined
  behaviour ends the run with \<open>None\<close>.
\<close>

datatype stub_call =
    SetInput int addr nat
  | SetOutput int addr nat
  | Invoke
  | AppWrite addr byte

fun stub_step :: "stub_call \<Rightarrow> StubContext \<times> mem \<Rightarrow> (StubContext \<times> mem) option" where
  "stub_step (SetInput index buf sz) (c, m) =
     (case stub_set_input c index buf sz of None \<Rightarrow> None | Some (r, c') \<Rightarrow> Some (c', m))"
| "stub_step (SetOutput index buf sz) (c, m) =
     (case stub_set_output c index buf sz of None \<Rightarrow> None | Some (r, c') \<Rightarrow> Some (c', m))"
| "stub_step Invoke (c, m) = (case stub_invoke c m of (r, c', m') \<Rightarrow> Some (c', m'))"
| "stub_step (AppWrite a v) (c, m) = Some (c, m(a := v))"

fun stub_run :: "stub_call list \<Rightarrow> StubContext \<times> mem \<Rightarrow> (StubContext \<times> mem) option" where
  "stub_run [] s = Some s"
| "stub_run (x # xs) s = (case stub_step x s of None \<Rightarrow> None | Some s' \<Rightarrow> stub_run xs s')"

text \<open>
  The buffer and size bound to an output index by a sequence of calls: those of the last
  \<open>set_output\<close> call for that index.
\<close>

fun bound_output :: "stub_call list \<Rightarrow> int \<Rightarrow> (addr \<times> nat) option" where
  "bound_output [] i = None"
| "bound_output (x # xs) i =
     (case bound_output xs i of
        Some b \<Rightarrow> Some b
      | None \<Rightarrow> (case x of
                   SetOutput j buf sz \<Rightarrow> if j = i then Some (buf, sz) else None
                 | _ \<Rightarrow> None))"

text \<open>
  \<open>changed_only_in m m' R\<close>: the memory \<open>m'\<close> differs from \<open>m\<close> only inside the regions
  of \<open>R\<close>, each given by its first address and its length.
\<close>

definition changed_only_in :: "mem \<Rightarrow> mem \<Rightarrow> (addr \<times> nat) set \<Rightarrow> bool" where
  "changed_only_in m m' R = (\<forall>a. m' a \<noteq> m a \<longrightarrow> (\<exists>r \<in> R. fst r \<le> a \<and> a < fst r + snd r))"

text \<open>The bound output buffers of a stub context that \<open>stub_invoke\<close> visits.\<close>

definition stub_regions :: "StubContext \<Rightarrow> (addr \<times> nat) set" where
  "stub_regions c =
     {(snd (outputs c i), fst (outputs c i)) | i. i < 32 \<and> int i < output_count c
        \<and> snd (outputs c i) \<noteq> 0}"

section \<open>ONNX Runtime backend (\<open>backend_onnx.c\<close>)\<close>

text \<open>
  The metadata \<open>populate_tensor_info\<close> records for a tensor, and the context.  The session
  pointer is modelled by whether it is non-null.  A binding is the pair of its \<open>buf\<close> and
  its \<open>size\<close>.  \<open>populate_tensor_info\<close> clamps both counts to \<open>MAX_TENSORS = 32\<close>.
\<close>

record onnx_tensor_info =
  t_name :: string
  t_size :: nat
  t_shape :: "int list"
  t_type :: nat

record OnnxContext =
  session :: bool
  onnx_inputs :: "nat \<Rightarrow> onnx_tensor_info"
  onnx_input_count :: nat
  onnx_outputs :: "nat \<Rightarrow> onnx_tensor_info"
  onnx_output_count :: nat
  onnx_input_bindings :: "nat \<Rightarrow> addr \<times> nat"
  onnx_output_bindings :: "nat \<Rightarrow> addr \<times> nat"


text \<open>The cast \<open>(size_t)index\<close> of a C \<open>int\<close> on a 64-bit target.\<close>

definition size_t_of_int :: "int \<Rightarrow> nat" where
  "size_t_of_int i = nat (i mod 2 ^ 64)"

definition onnx_get_input_size :: "OnnxContext \<Rightarrow> int \<Rightarrow> int \<times> nat option" where
  "onnx_get_input_size c index =
     (if size_t_of_int index \<ge> onnx_input_count c then (- 1, None)
      else (0, Some (t_size (onnx_inputs c (nat index)))))"

definition onnx_get_output_size :: "OnnxContext \<Rightarrow> int \<Rightarrow> int \<times> nat option" where
  "onnx_get_output_size c index =
     (if size_t_of_int index \<ge> onnx_output_count c then (- 1, None)
      else (0, Some (t_size (onnx_outputs c (nat index)))))"

definition onnx_set_input :: "OnnxContext \<Rightarrow> int \<Rightarrow> addr \<Rightarrow> nat \<Rightarrow> int \<times> OnnxContext" where
  "onnx_set_input c index buf sz =
     (if size_t_of_int index \<ge> 32 then (- 1, c)
      else (0, c\<lparr>onnx_input_bindings := (onnx_input_bindings c)(nat index := (buf, sz))\<rparr>))"

definition onnx_set_output :: "OnnxContext \<Rightarrow> int \<Rightarrow> addr \<Rightarrow> nat \<Rightarrow> int \<times> OnnxContext" where
  "onnx_set_output c index buf sz =
     (if size_t_of_int index \<ge> 32 then (- 1, c)
      else (0, c\<lparr>onnx_output_bindings := (onnx_output_bindings c)(nat index := (buf, sz))\<rparr>))"





section \<open>TensorFlow Lite backend (\<open>backend_tflite.c\<close>)\<close>

text \<open>
  The calls into the TFLite C library, as parameters, over the library's interpreter
  \<open>'i\<close> and tensor \<open>'t\<close>.  A tensor lookup yields \<open>None\<close> for a null pointer;
  \<open>TfLiteInterpreterInvoke\<close> yields whether the status is \<open>kTfLiteOk\<close> and the interpreter
  afterwards; \<open>TfLiteTensorCopyToBuffer\<close> yields the memory afterwards (the adapter ignores
  its status).
\<close>

record ('i, 't) tflite_api =
  TfLiteInterpreterGetInputTensorCount :: "'i \<Rightarrow> int"
  TfLiteInterpreterGetOutputTensorCount :: "'i \<Rightarrow> int"
  TfLiteInterpreterGetInputTensor :: "'i \<Rightarrow> int \<Rightarrow> 't option"
  TfLiteInterpreterGetOutputTensor :: "'i \<Rightarrow> int \<Rightarrow> 't option"
  TfLiteTensorByteSize :: "'t \<Rightarrow> nat"
  TfLiteInterpreterInvoke :: "'i \<Rightarrow> bool \<times> 'i"
  TfLiteTensorCopyToBuffer :: "'t \<Rightarrow> addr \<Rightarrow> nat \<Rightarrow> mem \<Rightarrow> mem"

record 'i TFLiteContext =
  interpreter :: "'i option"
  tfl_output_bindings :: "nat \<Rightarrow> addr \<times> nat"
  output_binding_count :: int

text \<open>
  The count queries: the library's \<open>int32_t\<close> count is stored as a \<open>uint32_t\<close>.  Neither
  the adapter nor its size queries below compare an index with these counts.
\<close>

definition tflite_get_input_count ::
  "('i, 't) tflite_api \<Rightarrow> 'i TFLiteContext \<Rightarrow> int \<times> nat option" where
  "tflite_get_input_count api c =
     (case interpreter c of
        None \<Rightarrow> (- 1, None)
      | Some it \<Rightarrow> (0, Some (nat (TfLiteInterpreterGetInputTensorCount api it mod 2 ^ 32))))"

definition tflite_get_output_count ::
  "('i, 't) tflite_api \<Rightarrow> 'i TFLiteContext \<Rightarrow> int \<times> nat option" where
  "tflite_get_output_count api c =
     (case interpreter c of
        None \<Rightarrow> (- 1, None)
      | Some it \<Rightarrow> (0, Some (nat (TfLiteInterpreterGetOutputTensorCount api it mod 2 ^ 32))))"

definition tflite_get_input_size ::
  "('i, 't) tflite_api \<Rightarrow> 'i TFLiteContext \<Rightarrow> int \<Rightarrow> int \<times> nat option" where
  "tflite_get_input_size api c index =
     (case interpreter c of
        None \<Rightarrow> (- 1, None)
      | Some it \<Rightarrow>
          (case TfLiteInterpreterGetInputTensor api it index of
             None \<Rightarrow> (- 1, None)
           | Some tensor \<Rightarrow> (0, Some (TfLiteTensorByteSize api tensor))))"

definition tflite_get_output_size ::
  "('i, 't) tflite_api \<Rightarrow> 'i TFLiteContext \<Rightarrow> int \<Rightarrow> int \<times> nat option" where
  "tflite_get_output_size api c index =
     (case interpreter c of
        None \<Rightarrow> (- 1, None)
      | Some it \<Rightarrow>
          (case TfLiteInterpreterGetOutputTensor api it index of
             None \<Rightarrow> (- 1, None)
           | Some tensor \<Rightarrow> (0, Some (TfLiteTensorByteSize api tensor))))"

text \<open>
  \<open>tflite_set_output\<close> tests \<open>index >= MAX_TENSORS\<close> on the \<open>int\<close>; a negative index writes
  before the table (undefined behaviour, \<open>None\<close>).
\<close>

definition tflite_set_output ::
  "'i TFLiteContext \<Rightarrow> int \<Rightarrow> addr \<Rightarrow> nat \<Rightarrow> (int \<times> 'i TFLiteContext) option" where
  "tflite_set_output c index buf sz =
     (if index \<ge> 32 then Some (- 1, c)
      else if index < 0 then None
      else Some (0, c\<lparr>tfl_output_bindings := (tfl_output_bindings c)(nat index := (buf, sz)),
                       output_binding_count :=
                         (if index \<ge> output_binding_count c then index + 1
                          else output_binding_count c)\<rparr>))"





section \<open>Runtime dispatcher (\<open>shim_runtime.c\<close>)\<close>

text \<open>The error codes of \<open>RuntimeAPI.h\<close> that the dispatcher returns.\<close>

definition NEURONRUNTIME_NO_ERROR :: int where "NEURONRUNTIME_NO_ERROR = 0"
definition NEURONRUNTIME_BAD_DATA :: int where "NEURONRUNTIME_BAD_DATA = 1"
definition NEURONRUNTIME_UNEXPECTED_NULL :: int where "NEURONRUNTIME_UNEXPECTED_NULL = 3"
definition NEURONRUNTIME_OP_FAILED :: int where "NEURONRUNTIME_OP_FAILED = 7"

text \<open>
  The operation table \<open>NeuronShimBackend\<close> of \<open>backend.h\<close>.  An adapter works on its
  context pointer \<open>'c\<close>, on the caller memory and on its own heap \<open>'x\<close>; every operation
  takes the last two and returns them with its return code.  Pointer arguments are
  addresses, \<open>0\<close> for null.
\<close>

record ('c, 'x) NeuronShimBackend =
  name :: string
  create :: "mem \<times> 'x \<Rightarrow> int \<times> 'c \<times> mem \<times> 'x"
  destroy :: "'c \<Rightarrow> mem \<times> 'x \<Rightarrow> mem \<times> 'x"
  load_from_file :: "'c \<Rightarrow> string \<Rightarrow> mem \<times> 'x \<Rightarrow> int \<times> mem \<times> 'x"
  load_from_buffer :: "'c \<Rightarrow> addr \<Rightarrow> nat \<Rightarrow> mem \<times> 'x \<Rightarrow> int \<times> mem \<times> 'x"
  get_input_count :: "'c \<Rightarrow> addr \<Rightarrow> mem \<times> 'x \<Rightarrow> int \<times> mem \<times> 'x"
  get_output_count :: "'c \<Rightarrow> addr \<Rightarrow> mem \<times> 'x \<Rightarrow> int \<times> mem \<times> 'x"
  get_input_size :: "'c \<Rightarrow> int \<Rightarrow> addr \<Rightarrow> mem \<times> 'x \<Rightarrow> int \<times> mem \<times> 'x"
  get_output_size :: "'c \<Rightarrow> int \<Rightarrow> addr \<Rightarrow> mem \<times> 'x \<Rightarrow> int \<times> mem \<times> 'x"
  set_input :: "'c \<Rightarrow> int \<Rightarrow> addr \<Rightarrow> nat \<Rightarrow> mem \<times> 'x \<Rightarrow> int \<times> mem \<times> 'x"
  set_output :: "'c \<Rightarrow> int \<Rightarrow> addr \<Rightarrow> nat \<Rightarrow> mem \<times> 'x \<Rightarrow> int \<times> mem \<times> 'x"
  invoke :: "'c \<Rightarrow> mem \<times> 'x \<Rightarrow> int \<times> mem \<times> 'x"

text \<open>\<open>ShimRuntime\<close>, what a handle points to.  A handle is an option: \<open>None\<close> is null.\<close>

record ('c, 'x) ShimRuntime =
  rt_backend :: "('c, 'x) NeuronShimBackend"
  backend_ctx :: 'c

text \<open>
  The state the dispatcher works on: caller memory, the adapters' heap, the lines written
  to \<open>stderr\<close>, and a record of the calls made through the operation table (kept by the
  model only, to state which adapter functions a call of the public API reaches).
\<close>

datatype adapter_call =
    CallCreate
  | CallDestroy
  | CallLoadFromFile string
  | CallLoadFromBuffer addr nat
  | CallGetInputCount addr
  | CallGetOutputCount addr
  | CallGetInputSize int addr
  | CallGetOutputSize int addr
  | CallSetInput int addr nat
  | CallSetOutput int addr nat
  | CallInvoke

record 'x shim_state =
  memory :: mem
  adapter_heap :: 'x
  adapter_calls :: "adapter_call list"
  stderr :: "string list"

text \<open>
  The pattern every forwarding function ends with: record the call, keep what the adapter
  did to memory and heap, and map its return code (\<open>0\<close> to no-error, anything else to
  operation-failed).
\<close>

definition forwarded :: "adapter_call \<Rightarrow> int \<times> mem \<times> 'x \<Rightarrow> 'x shim_state \<Rightarrow> int \<times> 'x shim_state" where
  "forwarded k r st =
     (if fst r = 0 then NEURONRUNTIME_NO_ERROR else NEURONRUNTIME_OP_FAILED,
      st\<lparr>memory := fst (snd r), adapter_heap := snd (snd r), adapter_calls := adapter_calls st @ [k]\<rparr>)"

text \<open>
  The macro \<open>SHIM_LOG(level, tag, fmt, ...)\<close> with the formatted message \<open>msg\<close>.  Log lines
  are modelled for \<open>NeuronRuntime_loadNetworkFromFile\<close> only; the trace lines of the other
  entry points are left out.
\<close>

definition SHIM_LOG :: "int \<Rightarrow> int \<Rightarrow> string \<Rightarrow> string \<Rightarrow> string list" where
  "SHIM_LOG lvl level tag msg =
     (if lvl \<ge> level then [''[neuron-shim]['' @ tag @ ''] '' @ msg] else [])"

definition LOG_ERR :: "int \<Rightarrow> string \<Rightarrow> string list" where
  "LOG_ERR lvl msg = SHIM_LOG lvl 1 ''ERROR'' msg"

definition LOG_INFO :: "int \<Rightarrow> string \<Rightarrow> string list" where
  "LOG_INFO lvl msg = SHIM_LOG lvl 3 ''INFO'' msg"

text \<open>
  \<open>NeuronRuntime_create\<close>, after \<open>ensure_init\<close> has produced the globals \<open>g\<close>.  \<open>table\<close> gives
  the operation table of each backend, \<open>alloc_ok\<close> tells whether \<open>calloc\<close> succeeds.  The
  second component is the handle stored through the out-pointer, if any.
\<close>

definition NeuronRuntime_create ::
  "(backend_id \<Rightarrow> ('c, 'x) NeuronShimBackend) \<Rightarrow> shim_globals \<Rightarrow> bool \<Rightarrow> 'x shim_state \<Rightarrow>
   int \<times> ('c, 'x) ShimRuntime option \<times> 'x shim_state" where
  "NeuronRuntime_create table g alloc_ok st =
     (if \<not> alloc_ok then (NEURONRUNTIME_OP_FAILED, None, st)
      else (case create (table (g_backend g)) (memory st, adapter_heap st) of
              (e, ctx, m, x) \<Rightarrow>
                let st' = st\<lparr>memory := m, adapter_heap := x, adapter_calls := adapter_calls st @ [CallCreate]\<rparr>
                in if e \<noteq> 0 then (NEURONRUNTIME_OP_FAILED, None, st')
                   else (NEURONRUNTIME_NO_ERROR,
                         Some \<lparr>rt_backend = table (g_backend g), backend_ctx = ctx\<rparr>, st')))"

definition NeuronRuntime_release ::
  "('c, 'x) ShimRuntime option \<Rightarrow> 'x shim_state \<Rightarrow> int \<times> 'x shim_state" where
  "NeuronRuntime_release runtime st =
     (case runtime of
        None \<Rightarrow> (NEURONRUNTIME_UNEXPECTED_NULL, st)
      | Some rt \<Rightarrow>
          (case destroy (rt_backend rt) (backend_ctx rt) (memory st, adapter_heap st) of
             (m, x) \<Rightarrow>
               (NEURONRUNTIME_NO_ERROR,
                st\<lparr>memory := m, adapter_heap := x, adapter_calls := adapter_calls st @ [CallDestroy]\<rparr>)))"

text \<open>
  \<open>NeuronRuntime_loadNetworkFromFile\<close>: the resolver is called with the global suffix, the
  configured \<open>model_dir\<close> and a local buffer of 1024 bytes.  (The resolver always returns
  that buffer; the case of no buffer below is there for the type only.)
\<close>

definition NeuronRuntime_loadNetworkFromFile ::
  "(string \<Rightarrow> string) \<Rightarrow> (string \<Rightarrow> bool) \<Rightarrow> shim_globals \<Rightarrow> ('c, 'x) ShimRuntime option \<Rightarrow>
   string option \<Rightarrow> 'x shim_state \<Rightarrow> int \<times> 'x shim_state" where
  "NeuronRuntime_loadNetworkFromFile bn readable g runtime path st =
     (case runtime of
        None \<Rightarrow> (NEURONRUNTIME_UNEXPECTED_NULL, st)
      | Some rt \<Rightarrow>
     (case path of
        None \<Rightarrow> (NEURONRUNTIME_UNEXPECTED_NULL, st)
      | Some p \<Rightarrow>
          let st1 = st\<lparr>stderr := stderr st @ LOG_INFO (g_log_level g) (''loadNetwork: '' @ p)\<rparr>
          in (case neuron_shim_resolve_model bn readable (Some p) (Some (g_suffix g))
                     (Some (model_dir (g_config g))) (Some []) 1024 of
                (rc, resolved, diag) \<Rightarrow>
                  if rc \<noteq> 0 then
                    (NEURONRUNTIME_BAD_DATA,
                     st1\<lparr>stderr := stderr st1 @ diag
                            @ LOG_ERR (g_log_level g) (''model not found: '' @ p @ g_suffix g)\<rparr>)
                  else
                    (case resolved of
                       None \<Rightarrow> (NEURONRUNTIME_BAD_DATA, st1)
                     | Some r \<Rightarrow>
                         let st2 = st1\<lparr>stderr := stderr st1 @ diag
                                          @ LOG_INFO (g_log_level g) (''loading: '' @ r)\<rparr>;
                             res = load_from_file (rt_backend rt) (backend_ctx rt) r
                                     (memory st2, adapter_heap st2);
                             st3 = st2\<lparr>memory := fst (snd res), adapter_heap := snd (snd res),
                                        adapter_calls := adapter_calls st2 @ [CallLoadFromFile r]\<rparr>
                         in if fst res \<noteq> 0 then
                              (NEURONRUNTIME_OP_FAILED,
                               st3\<lparr>stderr := stderr st3
                                      @ LOG_ERR (g_log_level g) (''backend failed to load: '' @ r)\<rparr>)
                            else (NEURONRUNTIME_NO_ERROR, st3)))))"

definition NeuronRuntime_loadNetworkFromBuffer ::
  "('c, 'x) ShimRuntime option \<Rightarrow> addr \<Rightarrow> nat \<Rightarrow> 'x shim_state \<Rightarrow> int \<times> 'x shim_state" where
  "NeuronRuntime_loadNetworkFromBuffer runtime buffer sz st =
     (case runtime of
        None \<Rightarrow> (NEURONRUNTIME_UNEXPECTED_NULL, st)
      | Some rt \<Rightarrow>
          if buffer = 0 then (NEURONRUNTIME_UNEXPECTED_NULL, st)
          else forwarded (CallLoadFromBuffer buffer sz)
                 (load_from_buffer (rt_backend rt) (backend_ctx rt) buffer sz
                    (memory st, adapter_heap st)) st)"

definition NeuronRuntime_setInput ::
  "('c, 'x) ShimRuntime option \<Rightarrow> int \<Rightarrow> addr \<Rightarrow> nat \<Rightarrow> int \<Rightarrow> 'x shim_state \<Rightarrow>
   int \<times> 'x shim_state" where
  "NeuronRuntime_setInput runtime index buffer sz padding st =
     (case runtime of
        None \<Rightarrow> (NEURONRUNTIME_UNEXPECTED_NULL, st)
      | Some rt \<Rightarrow>
          forwarded (CallSetInput index buffer sz)
            (set_input (rt_backend rt) (backend_ctx rt) index buffer sz
               (memory st, adapter_heap st)) st)"

definition NeuronRuntime_setOutput ::
  "('c, 'x) ShimRuntime option \<Rightarrow> int \<Rightarrow> addr \<Rightarrow> nat \<Rightarrow> int \<Rightarrow> 'x shim_state \<Rightarrow>
   int \<times> 'x shim_state" where
  "NeuronRuntime_setOutput runtime index buffer sz padding st =
     (case runtime of
        None \<Rightarrow> (NEURONRUNTIME_UNEXPECTED_NULL, st)
      | Some rt \<Rightarrow>
          forwarded (CallSetOutput index buffer sz)
            (set_output (rt_backend rt) (backend_ctx rt) index buffer sz
               (memory st, adapter_heap st)) st)"

definition NeuronRuntime_getInputCount ::
  "('c, 'x) ShimRuntime option \<Rightarrow> addr \<Rightarrow> 'x shim_state \<Rightarrow> int \<times> 'x shim_state" where
  "NeuronRuntime_getInputCount runtime count st =
     (case runtime of
        None \<Rightarrow> (NEURONRUNTIME_UNEXPECTED_NULL, st)
      | Some rt \<Rightarrow>
          if count = 0 then (NEURONRUNTIME_UNEXPECTED_NULL, st)
          else forwarded (CallGetInputCount count)
                 (get_input_count (rt_backend rt) (backend_ctx rt) count
                    (memory st, adapter_heap st)) st)"

definition NeuronRuntime_getOutputCount ::
  "('c, 'x) ShimRuntime option \<Rightarrow> addr \<Rightarrow> 'x shim_state \<Rightarrow> int \<times> 'x shim_state" where
  "NeuronRuntime_getOutputCount runtime count st =
     (case runtime of
        None \<Rightarrow> (NEURONRUNTIME_UNEXPECTED_NULL, st)
      | Some rt \<Rightarrow>
          if count = 0 then (NEURONRUNTIME_UNEXPECTED_NULL, st)
          else forwarded (CallGetOutputCount count)
                 (get_output_count (rt_backend rt) (backend_ctx rt) count
                    (memory st, adapter_heap st)) st)"

definition NeuronRuntime_getInputSize ::
  "('c, 'x) ShimRuntime option \<Rightarrow> int \<Rightarrow> addr \<Rightarrow> 'x shim_state \<Rightarrow> int \<times> 'x shim_state" where
  "NeuronRuntime_getInputSize runtime index sz st =
     (case runtime of
        None \<Rightarrow> (NEURONRUNTIME_UNEXPECTED_NULL, st)
      | Some rt \<Rightarrow>
          if sz = 0 then (NEURONRUNTIME_UNEXPECTED_NULL, st)
          else forwarded (CallGetInputSize index sz)
                 (get_input_size (rt_backend rt) (backend_ctx rt) index sz
                    (memory st, adapter_heap st)) st)"

definition NeuronRuntime_getOutputSize ::
  "('c, 'x) ShimRuntime option \<Rightarrow> int \<Rightarrow> addr \<Rightarrow> 'x shim_state \<Rightarrow> int \<times> 'x shim_state" where
  "NeuronRuntime_getOutputSize runtime index sz st =
     (case runtime of
        None \<Rightarrow> (NEURONRUNTIME_UNEXPECTED_NULL, st)
      | Some rt \<Rightarrow>
          if sz = 0 then (NEURONRUNTIME_UNEXPECTED_NULL, st)
          else forwarded (CallGetOutputSize index sz)
                 (get_output_size (rt_backend rt) (backend_ctx rt) index sz
                    (memory st, adapter_heap st)) st)"

text \<open>
  The layout of \<open>NeuronTensorInfo\<close> and \<open>QoSOptions\<close> on a 64-bit target:
  \<open>sizeof(NeuronTensorInfo)\<close> and the offset of \<open>sizeBytes\<close> in it, and the offsets of the
  pointer \<open>profiledQoSData\<close> (8 bytes) and of \<open>profiledQoSDataSize\<close> (4 bytes).
\<close>

definition sizeof_NeuronTensorInfo :: nat where "sizeof_NeuronTensorInfo = 56"
definition offsetof_sizeBytes :: nat where "offsetof_sizeBytes = 48"
definition offsetof_profiledQoSData :: nat where "offsetof_profiledQoSData = 24"
definition offsetof_profiledQoSDataSize :: nat where "offsetof_profiledQoSDataSize = 32"

definition NeuronRuntime_getInputInfo ::
  "('c, 'x) ShimRuntime option \<Rightarrow> int \<Rightarrow> addr \<Rightarrow> 'x shim_state \<Rightarrow> int \<times> 'x shim_state" where
  "NeuronRuntime_getInputInfo runtime index info st =
     (case runtime of
        None \<Rightarrow> (NEURONRUNTIME_UNEXPECTED_NULL, st)
      | Some rt \<Rightarrow>
          if info = 0 then (NEURONRUNTIME_UNEXPECTED_NULL, st)
          else let st1 = st\<lparr>memory := memset (memory st) info 0 sizeof_NeuronTensorInfo\<rparr>
               in forwarded (CallGetInputSize index (info + offsetof_sizeBytes))
                    (get_input_size (rt_backend rt) (backend_ctx rt) index
                       (info + offsetof_sizeBytes) (memory st1, adapter_heap st1)) st1)"

definition NeuronRuntime_getOutputInfo ::
  "('c, 'x) ShimRuntime option \<Rightarrow> int \<Rightarrow> addr \<Rightarrow> 'x shim_state \<Rightarrow> int \<times> 'x shim_state" where
  "NeuronRuntime_getOutputInfo runtime index info st =
     (case runtime of
        None \<Rightarrow> (NEURONRUNTIME_UNEXPECTED_NULL, st)
      | Some rt \<Rightarrow>
          if info = 0 then (NEURONRUNTIME_UNEXPECTED_NULL, st)
          else let st1 = st\<lparr>memory := memset (memory st) info 0 sizeof_NeuronTensorInfo\<rparr>
               in forwarded (CallGetOutputSize index (info + offsetof_sizeBytes))
                    (get_output_size (rt_backend rt) (backend_ctx rt) index
                       (info + offsetof_sizeBytes) (memory st1, adapter_heap st1)) st1)"

definition NeuronRuntime_inference ::
  "('c, 'x) ShimRuntime option \<Rightarrow> 'x shim_state \<Rightarrow> int \<times> 'x shim_state" where
  "NeuronRuntime_inference runtime st =
     (case runtime of
        None \<Rightarrow> (NEURONRUNTIME_UNEXPECTED_NULL, st)
      | Some rt \<Rightarrow>
          forwarded CallInvoke
            (invoke (rt_backend rt) (backend_ctx rt) (memory st, adapter_heap st)) st)"

text \<open>The two quality-of-service entry points: neither looks at the handle.\<close>

definition NeuronRuntime_setQoSOption ::
  "('c, 'x) ShimRuntime option \<Rightarrow> addr \<Rightarrow> 'x shim_state \<Rightarrow> int \<times> 'x shim_state" where
  "NeuronRuntime_setQoSOption runtime qos st = (NEURONRUNTIME_NO_ERROR, st)"

definition NeuronRuntime_getProfiledQoSData ::
  "('c, 'x) ShimRuntime option \<Rightarrow> addr \<Rightarrow> 'x shim_state \<Rightarrow> int \<times> 'x shim_state" where
  "NeuronRuntime_getProfiledQoSData runtime qos st =
     (NEURONRUNTIME_NO_ERROR,
      if qos \<noteq> 0 then
        st\<lparr>memory := memset (memset (memory st) (qos + offsetof_profiledQoSData) 0 8)
                        (qos + offsetof_profiledQoSDataSize) 0 4\<rparr>
      else st)"

section \<open>Example inputs\<close>

text \<open>
  A file system with both configuration files and an environment that sets the backend,
  used to run the configuration loader on a concrete input.
\<close>

definition ex_fs :: "string \<Rightarrow> string option" where
  "ex_fs p =
     (if p = ''./neuron-shim.conf'' then Some (''backend = onnx'' @ [CHR 0x0A] @ ''threads = 8'' @ [CHR 0x0A])
      else if p = ''/etc/neuron-shim.conf'' then Some (''threads = 2'' @ [CHR 0x0A] @ ''log_level = 1'' @ [CHR 0x0A])
      else None)"

definition ex_env :: "string \<Rightarrow> string option" where
  "ex_env n = (if n = ''NEURON_SHIM_BACKEND'' then Some ''stub'' else None)"

text \<open>
  Two environments: one whose thread count holds no digit, one whose thread count is a
  number followed by other text.
\<close>

definition trailing_threads_env :: "string \<Rightarrow> string option" where
  "trailing_threads_env n = (if n = ''NEURON_SHIM_NUM_THREADS'' then Some ''12abc'' else None)"


definition bad_threads_env :: "string \<Rightarrow> string option" where
  "bad_threads_env n = (if n = ''NEURON_SHIM_NUM_THREADS'' then Some ''abc'' else None)"

text \<open>
  An ONNX context with one input and one output tensor of four bytes each, the output
  bound to a buffer of two bytes; and an ONNX Runtime whose adapter_calls all succeed.
\<close>

definition ex_onnx_ctx :: OnnxContext where
  "ex_onnx_ctx =
     \<lparr>session = True,
      onnx_inputs = (\<lambda>i. \<lparr>t_name = ''in'', t_size = 4, t_shape = [1, 4], t_type = 2\<rparr>),
      onnx_input_count = 1,
      onnx_outputs = (\<lambda>i. \<lparr>t_name = ''out'', t_size = 4, t_shape = [1, 4], t_type = 2\<rparr>),
      onnx_output_count = 1,
      onnx_input_bindings = (\<lambda>i. if i = 0 then (50, 4) else (0, 0)),
      onnx_output_bindings = (\<lambda>i. if i = 0 then (100, 2) else (0, 0))\<rparr>"


text \<open>
  A TFLite library with one input and one output tensor of four bytes (a tensor is
  represented by its size), whose copy succeeds only for the exact tensor size, as the
  C API documents; and a context with the output bound to a buffer of two bytes.
\<close>

definition ex_tflite_api :: "(unit, nat) tflite_api" where
  "ex_tflite_api =
     \<lparr>TfLiteInterpreterGetInputTensorCount = (\<lambda>it. 1),
      TfLiteInterpreterGetOutputTensorCount = (\<lambda>it. 1),
      TfLiteInterpreterGetInputTensor = (\<lambda>it i. if i = 0 then Some 4 else None),
      TfLiteInterpreterGetOutputTensor = (\<lambda>it i. if i = 0 then Some 4 else None),
      TfLiteTensorByteSize = (\<lambda>t. t),
      TfLiteInterpreterInvoke = (\<lambda>it. (True, it)),
      TfLiteTensorCopyToBuffer = (\<lambda>t buf n m. if n = t then memset m buf 1 n else m)\<rparr>"

text \<open>
  The same library, except that its tensor lookup does not look at the index: it reports
  one input and one output, and yields a tensor of four bytes at every index.
\<close>

definition unchecked_tflite_api :: "(unit, nat) tflite_api" where
  "unchecked_tflite_api =
     ex_tflite_api
       \<lparr>TfLiteInterpreterGetInputTensor := (\<lambda>it i. Some 4),
        TfLiteInterpreterGetOutputTensor := (\<lambda>it i. Some 4)\<rparr>"

definition ex_tflite_ctx :: "unit TFLiteContext" where
  "ex_tflite_ctx =
     \<lparr>interpreter = Some (),
      tfl_output_bindings = (\<lambda>i. if i = 0 then (100, 2) else (0, 0)),
      output_binding_count = 1\<rparr>"

text \<open>A stub context after loading a model and binding one output buffer of four bytes.\<close>

definition ex_stub_ctx :: StubContext where
  "ex_stub_ctx =
     (snd (stub_load_from_file (snd stub_create) ''/data/m.dla.onnx''))
       \<lparr>outputs := (\<lambda>i. if i = 0 then (4, 100) else (0, 0))\<rparr>"

text \<open>
  An operation table whose operations all succeed and touch nothing, a handle on it, a
  dispatcher state with nothing printed and no call made yet, and the globals of a
  process started with \<open>NEURON_SHIM_LOG_LEVEL=0\<close> and no configuration file.
\<close>

definition ex_backend :: "(unit, unit) NeuronShimBackend" where
  "ex_backend =
     \<lparr>name = ''stub'',
      create = (\<lambda>w. (0, (), w)),
      destroy = (\<lambda>c w. w),
      load_from_file = (\<lambda>c p w. (0, w)),
      load_from_buffer = (\<lambda>c b n w. (0, w)),
      get_input_count = (\<lambda>c p w. (0, w)),
      get_output_count = (\<lambda>c p w. (0, w)),
      get_input_size = (\<lambda>c i p w. (0, w)),
      get_output_size = (\<lambda>c i p w. (0, w)),
      set_input = (\<lambda>c i b n w. (0, w)),
      set_output = (\<lambda>c i b n w. (0, w)),
      invoke = (\<lambda>c w. (0, w))\<rparr>"

definition ex_runtime :: "(unit, unit) ShimRuntime" where
  "ex_runtime = \<lparr>rt_backend = ex_backend, backend_ctx = ()\<rparr>"

definition ex_state :: "unit shim_state" where
  "ex_state = \<lparr>memory = (\<lambda>a. 0), adapter_heap = (), adapter_calls = [], stderr = []\<rparr>"

definition quiet_env :: "string \<Rightarrow> string option" where
  "quiet_env n = (if n = ''NEURON_SHIM_LOG_LEVEL'' then Some ''0'' else None)"

definition quiet_globals :: shim_globals where
  "quiet_globals = shim_global_init False False (\<lambda>lib. False) (\<lambda>p. None) quiet_env"

definition default_globals :: shim_globals where
  "default_globals = shim_global_init False False (\<lambda>lib. False) (\<lambda>p. None) (\<lambda>n. None)"

section \<open>Properties of the configuration loader\<close>

lemma fold_lines_field:
  assumes asg: "\<And>k v g. get (config_assign k v g) = (if k = key then conv v else get g)"
  shows "get (fold parse_config_line ls g) =
     (let kvs = filter (\<lambda>kv. fst kv = key) (List.map_filter line_key_value ls)
      in if kvs = [] then get g else conv (snd (last kvs)))"
proof (induction ls rule: rev_induct)
  case Nil
  show ?case by (simp add: List.map_filter_def)
next
  case (snoc l ls)
  show ?case
  proof (cases "line_key_value l")
    case None
    then show ?thesis using snoc
      by (simp add: parse_config_line_def List.map_filter_def Let_def)
  next
    case (Some kv)
    obtain k v where kv: "kv = (k, v)" by (cases kv)
    show ?thesis
    proof (cases "k = key")
      case True
      then show ?thesis using Some kv asg
        by (simp add: parse_config_line_def List.map_filter_def Let_def)
    next
      case False
      then show ?thesis using Some kv asg snoc
        by (simp add: parse_config_line_def List.map_filter_def Let_def)
    qed
  qed
qed

lemma parse_config_file_field:
  assumes asg: "\<And>k v g. get (config_assign k v g) = (if k = key then conv v else get g)"
  shows "get (parse_config_file file g) =
     (case file_setting file key of None \<Rightarrow> get g | Some v \<Rightarrow> conv v)"
proof (cases "file")
  case None
  then show ?thesis by (simp add: parse_config_file_def file_setting_def)
next
  case (Some content)
  then show ?thesis
    using fold_lines_field[of get key conv "fgets_lines 511 [] content" g, OF asg]
    by (simp add: parse_config_file_def file_setting_def Let_def)
qed

lemma two_files_field:
  assumes asg: "\<And>k v g. get (config_assign k v g) = (if k = key then conv v else get g)"
  shows "get (parse_config_file loc (parse_config_file sys g)) =
     precedence None (map_option conv (file_setting loc key))
       (map_option conv (file_setting sys key)) (get g)"
  by (simp add: parse_config_file_field[of get key conv, OF asg] precedence_def split: option.splits)

lemma assign_backend: "backend (config_assign k v g) = (if k = ''backend'' then take 31 v else backend g)"
  by (simp add: config_assign_def)
lemma assign_suffix: "suffix (config_assign k v g) = (if k = ''suffix'' then take 31 v else suffix g)"
  by (simp add: config_assign_def)
lemma assign_model_dir: "model_dir (config_assign k v g) = (if k = ''model_dir'' then take 511 v else model_dir g)"
  by (simp add: config_assign_def snprintf_buf_def)
lemma assign_threads: "threads (config_assign k v g) = (if k = ''threads'' then atoi v else threads g)"
  by (simp add: config_assign_def)
lemma assign_force_cpu: "force_cpu (config_assign k v g) = (if k = ''force_cpu'' then (v = ''true'' \<or> v = ''1'') else force_cpu g)"
  by (simp add: config_assign_def)
lemma assign_log_level: "log_level (config_assign k v g) = (if k = ''log_level'' then atoi v else log_level g)"
  by (simp add: config_assign_def)

lemma env_backend: "backend (env_override env g) = (case env ''NEURON_SHIM_BACKEND'' of None \<Rightarrow> backend g | Some v \<Rightarrow> take 31 v)"
  by (simp add: env_override_def Let_def split: option.splits)
lemma env_suffix: "suffix (env_override env g) = (case env ''NEURON_SHIM_SUFFIX'' of None \<Rightarrow> suffix g | Some v \<Rightarrow> take 31 v)"
  by (simp add: env_override_def Let_def split: option.splits)
lemma env_model_dir: "model_dir (env_override env g) = (case env ''NEURON_SHIM_MODEL_DIR'' of None \<Rightarrow> model_dir g | Some v \<Rightarrow> take 511 v)"
  by (simp add: env_override_def Let_def snprintf_buf_def split: option.splits)
lemma env_threads: "threads (env_override env g) = (case env ''NEURON_SHIM_NUM_THREADS'' of None \<Rightarrow> threads g | Some v \<Rightarrow> atoi v)"
  by (simp add: env_override_def Let_def split: option.splits)
lemma env_force_cpu: "force_cpu (env_override env g) = (case env ''NEURON_SHIM_FORCE_CPU'' of None \<Rightarrow> force_cpu g | Some v \<Rightarrow> (v = ''1''))"
  by (simp add: env_override_def Let_def split: option.splits)
lemma env_log_level: "log_level (env_override env g) = (case env ''NEURON_SHIM_LOG_LEVEL'' of None \<Rightarrow> log_level g | Some v \<Rightarrow> atoi v)"
  by (simp add: env_override_def Let_def split: option.splits)

lemma load_backend:
  "backend (neuron_shim_config_load fs env) =
     precedence (map_option (take 31) (env ''NEURON_SHIM_BACKEND''))
       (map_option (take 31) (file_setting (fs ''./neuron-shim.conf'') ''backend''))
       (map_option (take 31) (file_setting (fs ''/etc/neuron-shim.conf'') ''backend''))
       ''auto''"
  unfolding neuron_shim_config_load_def env_backend
    two_files_field[of backend "''backend''" "take 31", OF assign_backend]
  by (simp add: precedence_def g_config_init_def split: option.splits)

lemma load_suffix:
  "suffix (neuron_shim_config_load fs env) =
     precedence (map_option (take 31) (env ''NEURON_SHIM_SUFFIX''))
       (map_option (take 31) (file_setting (fs ''./neuron-shim.conf'') ''suffix''))
       (map_option (take 31) (file_setting (fs ''/etc/neuron-shim.conf'') ''suffix''))
       ''auto''"
  unfolding neuron_shim_config_load_def env_suffix
    two_files_field[of suffix "''suffix''" "take 31", OF assign_suffix]
  by (simp add: precedence_def g_config_init_def split: option.splits)

lemma load_model_dir:
  "model_dir (neuron_shim_config_load fs env) =
     precedence (map_option (take 511) (env ''NEURON_SHIM_MODEL_DIR''))
       (map_option (take 511) (file_setting (fs ''./neuron-shim.conf'') ''model_dir''))
       (map_option (take 511) (file_setting (fs ''/etc/neuron-shim.conf'') ''model_dir''))
       []"
  unfolding neuron_shim_config_load_def env_model_dir
    two_files_field[of model_dir "''model_dir''" "take 511", OF assign_model_dir]
  by (simp add: precedence_def g_config_init_def split: option.splits)

lemma load_threads:
  "threads (neuron_shim_config_load fs env) =
     precedence (map_option atoi (env ''NEURON_SHIM_NUM_THREADS''))
       (map_option atoi (file_setting (fs ''./neuron-shim.conf'') ''threads''))
       (map_option atoi (file_setting (fs ''/etc/neuron-shim.conf'') ''threads''))
       4"
  unfolding neuron_shim_config_load_def env_threads
    two_files_field[of threads "''threads''" atoi, OF assign_threads]
  by (simp add: precedence_def g_config_init_def split: option.splits)

lemma load_force_cpu:
  "force_cpu (neuron_shim_config_load fs env) =
     precedence (map_option (\<lambda>v. v = ''1'') (env ''NEURON_SHIM_FORCE_CPU''))
       (map_option (\<lambda>v. v = ''true'' \<or> v = ''1'') (file_setting (fs ''./neuron-shim.conf'') ''force_cpu''))
       (map_option (\<lambda>v. v = ''true'' \<or> v = ''1'') (file_setting (fs ''/etc/neuron-shim.conf'') ''force_cpu''))
       False"
  unfolding neuron_shim_config_load_def env_force_cpu
    two_files_field[of force_cpu "''force_cpu''" "\<lambda>v. v = ''true'' \<or> v = ''1''", OF assign_force_cpu]
  by (simp add: precedence_def g_config_init_def split: option.splits)

lemma load_log_level:
  "log_level (neuron_shim_config_load fs env) =
     precedence (map_option atoi (env ''NEURON_SHIM_LOG_LEVEL''))
       (map_option atoi (file_setting (fs ''./neuron-shim.conf'') ''log_level''))
       (map_option atoi (file_setting (fs ''/etc/neuron-shim.conf'') ''log_level''))
       3"
  unfolding neuron_shim_config_load_def env_log_level
    two_files_field[of log_level "''log_level''" atoi, OF assign_log_level]
  by (simp add: precedence_def g_config_init_def split: option.splits)

text \<open>
  Claim C3.  Every field of the snapshot \<open>neuron_shim_config_load\<close> returns is decided by
  the highest source that sets it: the environment variable, else the last assignment in
  \<open>./neuron-shim.conf\<close>, else the last assignment in \<open>/etc/neuron-shim.conf\<close>, else the
  compiled-in default.  A source that does not set a field leaves it as the lower
  sources decided.  The value stored is the source's text as the field holds it (cut to the
  field's size for the three strings, read by \<open>atoi\<close> for the two numbers, compared with
  the accepted spellings for the flag).
\<close>

theorem config_precedence:
  "backend (neuron_shim_config_load fs env) =
     precedence (map_option (take 31) (env ''NEURON_SHIM_BACKEND''))
       (map_option (take 31) (file_setting (fs ''./neuron-shim.conf'') ''backend''))
       (map_option (take 31) (file_setting (fs ''/etc/neuron-shim.conf'') ''backend''))
       (backend g_config_init)
   \<and> suffix (neuron_shim_config_load fs env) =
     precedence (map_option (take 31) (env ''NEURON_SHIM_SUFFIX''))
       (map_option (take 31) (file_setting (fs ''./neuron-shim.conf'') ''suffix''))
       (map_option (take 31) (file_setting (fs ''/etc/neuron-shim.conf'') ''suffix''))
       (suffix g_config_init)
   \<and> model_dir (neuron_shim_config_load fs env) =
     precedence (map_option (take 511) (env ''NEURON_SHIM_MODEL_DIR''))
       (map_option (take 511) (file_setting (fs ''./neuron-shim.conf'') ''model_dir''))
       (map_option (take 511) (file_setting (fs ''/etc/neuron-shim.conf'') ''model_dir''))
       (model_dir g_config_init)
   \<and> threads (neuron_shim_config_load fs env) =
     precedence (map_option atoi (env ''NEURON_SHIM_NUM_THREADS''))
       (map_option atoi (file_setting (fs ''./neuron-shim.conf'') ''threads''))
       (map_option atoi (file_setting (fs ''/etc/neuron-shim.conf'') ''threads''))
       (threads g_config_init)
   \<and> force_cpu (neuron_shim_config_load fs env) =
     precedence (map_option (\<lambda>v. v = ''1'') (env ''NEURON_SHIM_FORCE_CPU''))
       (map_option (\<lambda>v. v = ''true'' \<or> v = ''1'') (file_setting (fs ''./neuron-shim.conf'') ''force_cpu''))
       (map_option (\<lambda>v. v = ''true'' \<or> v = ''1'') (file_setting (fs ''/etc/neuron-shim.conf'') ''force_cpu''))
       (force_cpu g_config_init)
   \<and> log_level (neuron_shim_config_load fs env) =
     precedence (map_option atoi (env ''NEURON_SHIM_LOG_LEVEL''))
       (map_option atoi (file_setting (fs ''./neuron-shim.conf'') ''log_level''))
       (map_option atoi (file_setting (fs ''/etc/neuron-shim.conf'') ''log_level''))
       (log_level g_config_init)"
  by (simp add: load_backend load_suffix load_model_dir load_threads load_force_cpu
        load_log_level g_config_init_def)

text \<open>
  The rule at work: the environment names the stub backend and the local file the ONNX
  one, both files set the thread count, only the system file sets the log level.
\<close>

theorem config_precedence_witness:
  "backend (neuron_shim_config_load ex_fs ex_env) = ''stub''
   \<and> threads (neuron_shim_config_load ex_fs ex_env) = 8
   \<and> log_level (neuron_shim_config_load ex_fs ex_env) = 1"
  using config_precedence[of ex_fs ex_env]
  apply (simp add: precedence_def ex_env_def g_config_init_def)
  apply (simp add: ex_fs_def file_setting_def List.map_filter_def line_key_value_def sscanf_key_value_def isspace_def atoi_def strtol10_def isdigit_def)
  done

lemma atoi_digits_foldl:
  "atoi_digits acc r =
     foldl (\<lambda>a c. 10 * a + (int (of_char c) - 48)) acc (takeWhile isdigit r)"
  by (induction r arbitrary: acc) simp_all

lemma strtol10_leading_integer:
  "strtol10 v = max (- 9223372036854775808) (min 9223372036854775807 (leading_integer v))"
proof (cases "dropWhile isspace v")
  case Nil
  then show ?thesis
    by (simp add: strtol10_def leading_integer_def after_sign_def decimal_value_def Let_def
          del: dropWhile_eq_Nil_conv)
next
  case (Cons c r)
  then show ?thesis
    by (simp add: strtol10_def leading_integer_def after_sign_def decimal_value_def Let_def
          atoi_digits_foldl)
qed

lemma leading_integer_no_digit: "\<not> has_leading_digit v \<Longrightarrow> leading_integer v = 0"
  by (cases "snd (after_sign v)")
     (simp_all add: has_leading_digit_def leading_integer_def decimal_value_def)

lemma atoi_no_digit: "\<not> has_leading_digit v \<Longrightarrow> atoi v = 0"
  by (simp add: atoi_def strtol10_leading_integer leading_integer_no_digit)

lemma atoi_leading_integer:
  assumes "- 2147483648 \<le> leading_integer v" and "leading_integer v \<le> 2147483647"
  shows "atoi v = leading_integer v"
proof -
  from assms have "strtol10 v = leading_integer v"
    by (simp add: strtol10_leading_integer)
  moreover have "sint (word_of_int (leading_integer v) :: 32 word) = leading_integer v"
    using assms by (simp add: sint_sbintrunc' signed_take_bit_int_eq_self)
  ultimately show ?thesis by (simp add: atoi_def)
qed

text \<open>
  Claim C7, as amended.  Let \<open>v\<close> be the text that decides \<open>threads\<close> or \<open>log_level\<close> (from
  the environment or from a file).  If \<open>v\<close> has no decimal digit after its leading white
  space and optional sign, the field of the snapshot is \<open>0\<close>.  Otherwise the field is the
  integer those leading digits spell, with the sign (when it fits an \<open>int\<close>), whatever text
  follows the digits.  In neither case is the compiled-in default restored.
\<close>

theorem numeric_field_is_leading_integer:
  "(supplied (env ''NEURON_SHIM_NUM_THREADS'')
       (file_setting (fs ''./neuron-shim.conf'') ''threads'')
       (file_setting (fs ''/etc/neuron-shim.conf'') ''threads'') = Some v \<longrightarrow>
      (\<not> has_leading_digit v \<longrightarrow> threads (neuron_shim_config_load fs env) = 0)
    \<and> (has_leading_digit v \<and> - 2147483648 \<le> leading_integer v
          \<and> leading_integer v \<le> 2147483647 \<longrightarrow>
        threads (neuron_shim_config_load fs env) = leading_integer v))
   \<and> (supplied (env ''NEURON_SHIM_LOG_LEVEL'')
       (file_setting (fs ''./neuron-shim.conf'') ''log_level'')
       (file_setting (fs ''/etc/neuron-shim.conf'') ''log_level'') = Some v \<longrightarrow>
      (\<not> has_leading_digit v \<longrightarrow> log_level (neuron_shim_config_load fs env) = 0)
    \<and> (has_leading_digit v \<and> - 2147483648 \<le> leading_integer v
          \<and> leading_integer v \<le> 2147483647 \<longrightarrow>
        log_level (neuron_shim_config_load fs env) = leading_integer v))"
proof -
  have t: "supplied (env ''NEURON_SHIM_NUM_THREADS'')
       (file_setting (fs ''./neuron-shim.conf'') ''threads'')
       (file_setting (fs ''/etc/neuron-shim.conf'') ''threads'') = Some v \<Longrightarrow>
      threads (neuron_shim_config_load fs env) = atoi v"
    by (auto simp: load_threads supplied_def precedence_def split: option.splits)
  have l: "supplied (env ''NEURON_SHIM_LOG_LEVEL'')
       (file_setting (fs ''./neuron-shim.conf'') ''log_level'')
       (file_setting (fs ''/etc/neuron-shim.conf'') ''log_level'') = Some v \<Longrightarrow>
      log_level (neuron_shim_config_load fs env) = atoi v"
    by (auto simp: load_log_level supplied_def precedence_def split: option.splits)
  show ?thesis
    using t l by (auto simp: atoi_no_digit atoi_leading_integer)
qed

text \<open>
  Claim C7 as stated fails: with \<open>NEURON_SHIM_NUM_THREADS=abc\<close> and no file, the thread
  count of the snapshot is not the compiled-in \<open>4\<close>.
\<close>

theorem unparsable_number_not_default:
  "\<not> has_leading_digit ''abc''
   \<and> threads (neuron_shim_config_load (\<lambda>p. None) bad_threads_env) \<noteq> threads g_config_init"
  by (simp add: load_threads precedence_def bad_threads_env_def has_leading_digit_def
        after_sign_def isspace_def isdigit_def atoi_def strtol10_def g_config_init_def)

text \<open>
  The amended statement on both kinds of text: \<open>abc\<close> gives \<open>0\<close>, and \<open>12abc\<close> gives \<open>12\<close>.
\<close>

theorem numeric_field_is_leading_integer_witness:
  "\<not> has_leading_digit ''abc''
   \<and> threads (neuron_shim_config_load (\<lambda>p. None) bad_threads_env) = 0
   \<and> has_leading_digit ''12abc''
   \<and> leading_integer ''12abc'' = 12
   \<and> threads (neuron_shim_config_load (\<lambda>p. None) trailing_threads_env) = 12"
proof -
  have a: "\<not> has_leading_digit ''abc''"
    by (simp add: has_leading_digit_def after_sign_def isspace_def isdigit_def)
  have sa: "supplied (bad_threads_env ''NEURON_SHIM_NUM_THREADS'')
            (file_setting None ''threads'') (file_setting None ''threads'') = Some ''abc''"
    by (simp add: supplied_def bad_threads_env_def)
  have b: "has_leading_digit ''12abc''"
    by (simp add: has_leading_digit_def after_sign_def isspace_def isdigit_def)
  have n: "leading_integer ''12abc'' = 12"
    by (simp add: leading_integer_def after_sign_def decimal_value_def isspace_def isdigit_def)
  have sb: "supplied (trailing_threads_env ''NEURON_SHIM_NUM_THREADS'')
            (file_setting None ''threads'') (file_setting None ''threads'') = Some ''12abc''"
    by (simp add: supplied_def trailing_threads_env_def)
  have za: "threads (neuron_shim_config_load (\<lambda>p. None) bad_threads_env) = 0"
    using numeric_field_is_leading_integer[of bad_threads_env "\<lambda>p. None" "''abc''"] sa a
    by simp
  have zb: "threads (neuron_shim_config_load (\<lambda>p. None) trailing_threads_env) = 12"
    using numeric_field_is_leading_integer[of trailing_threads_env "\<lambda>p. None" "''12abc''"] sb b n
    by simp
  from a za b n zb show ?thesis by simp
qed

text \<open>
  Claim C4.  The suffix for \<open>suffix = auto\<close> is computed from the configured backend
  \<^emph>\<open>name\<close>, not from the backend that was selected.  In a build with only the TFLite
  backend compiled in, no configuration file and an empty environment, auto-detection
  selects the TFLite backend, yet the suffix is \<open>.onnx\<close> where the claim asks for
  \<open>.tflite\<close>.
\<close>

theorem auto_suffix_follows_setting_not_selection:
  "g_backend (shim_global_init False True (\<lambda>lib. True) (\<lambda>p. None) (\<lambda>n. None)) = Tflite
   \<and> g_suffix (shim_global_init False True (\<lambda>lib. True) (\<lambda>p. None) (\<lambda>n. None)) = ''.onnx''
   \<and> spec_backend_suffix Tflite = ''.tflite''"
  by (simp add: shim_global_init_def neuron_shim_config_load_def parse_config_file_def
        env_override_def g_config_init_def neuron_shim_select_backend_def auto_detect_def
        neuron_shim_config_get_suffix_def spec_backend_suffix_def Let_def)

section \<open>Properties of the model path resolver\<close>

lemma resolve_format_spec:
  "length P < 1024 \<or> D = None \<or> D = Some [] \<Longrightarrow> resolve_format bn P S D = spec_resolve bn P S D"
  by (auto simp: resolve_format_def spec_resolve_def snprintf_buf_def last_conv_nth split: option.splits)

text \<open>
  Claim C1, as amended.  When the string of the resolution rule fits the output buffer
  with its terminator (and is no longer than \<open>INT_MAX\<close>), and the original path is
  shorter than 1024 bytes whenever a redirect directory is set, the output buffer holds
  exactly that string: \<open>P + S\<close> without a redirect directory, \<open>D + "/" + baseName(P) + S\<close>
  with one, without a doubled separator.  The return code then reports whether that file
  is readable, and the diagnostic is printed when it is not.
\<close>

theorem resolve_model_exact:
  assumes "length (spec_resolve bn P S D) < resolved_len"
    and "length (spec_resolve bn P S D) \<le> 2147483647"
    and "length P < 1024 \<or> D = None \<or> D = Some []"
  shows "neuron_shim_resolve_model bn readable (Some P) (Some S) D (Some old) resolved_len =
          (if readable (spec_resolve bn P S D) then 0 else - 1,
           Some (spec_resolve bn P S D),
           if readable (spec_resolve bn P S D) then []
           else not_found_diag P (spec_resolve bn P S D) D S)"
  using assms resolve_format_spec[OF assms(3), of bn S]
  by (simp add: neuron_shim_resolve_model_def snprintf_ret_def snprintf_buf_def Let_def)

lemma ex_spec_resolve:
  "spec_resolve posix_basename ''/data/m.dla'' ''.onnx'' (Some ''/opt/models/'') = ''/opt/models/m.dla.onnx''"
  by (simp add: spec_resolve_def posix_basename_def)

text \<open>The specification's example with a trailing slash on the redirect directory.\<close>

theorem resolve_model_exact_witness:
  "neuron_shim_resolve_model posix_basename (\<lambda>p. True) (Some ''/data/m.dla'') (Some ''.onnx'')
     (Some ''/opt/models/'') (Some []) 1024 = (0, Some ''/opt/models/m.dla.onnx'', [])"
  using resolve_model_exact[of posix_basename "''/data/m.dla''" "''.onnx''" "Some ''/opt/models/''" 1024 "\<lambda>p. True" "[]"]
  by (simp add: ex_spec_resolve)

text \<open>
  Claim C1 as stated fails: for a path of 1024 bytes and the dispatcher's buffer of 1024
  bytes the output buffer holds a truncated string, not \<open>P + S\<close>.
\<close>

theorem resolve_model_truncates_long_path:
  "fst (snd (neuron_shim_resolve_model posix_basename (\<lambda>p. True)
         (Some (replicate 1024 CHR ''a'')) (Some ''.onnx'') None (Some []) 1024))
   \<noteq> Some (spec_resolve posix_basename (replicate 1024 CHR ''a'') ''.onnx'' None)"
proof -
  have "length (replicate 1023 CHR ''a'') \<noteq> length (replicate 1024 CHR ''a'' @ ''.onnx'')"
    by simp
  then have "replicate 1023 CHR ''a'' \<noteq> replicate 1024 CHR ''a'' @ ''.onnx''"
    by metis
  then show ?thesis
    by (simp add: neuron_shim_resolve_model_def resolve_format_def snprintf_ret_def
          snprintf_buf_def spec_resolve_def)
qed

text \<open>The other two examples of the specification, on a file system where every file exists.\<close>

lemma resolve_model_examples:
  "neuron_shim_resolve_model posix_basename (\<lambda>p. True) (Some ''/data/m.dla'') (Some ''.onnx'')
     (Some []) (Some []) 1024 = (0, Some ''/data/m.dla.onnx'', [])"
  "neuron_shim_resolve_model posix_basename (\<lambda>p. True) (Some ''/data/m.dla'') (Some ''.onnx'')
     (Some ''/opt/models'') (Some []) 1024 = (0, Some ''/opt/models/m.dla.onnx'', [])"
  by (simp_all add: neuron_shim_resolve_model_def resolve_format_def snprintf_ret_def
        snprintf_buf_def posix_basename_def)

section \<open>Properties of the stub backend\<close>

declare stub_zero_outputs.simps [simp del]

lemma stub_zero_outputs_step:
  "int i < output_count c \<Longrightarrow> i < 32 \<Longrightarrow>
   stub_zero_outputs c i m =
     stub_zero_outputs c (i + 1)
       (if snd (outputs c i) \<noteq> 0 \<and> fst (outputs c i) > 0
        then memset m (snd (outputs c i)) 0 (fst (outputs c i)) else m)"
  using stub_zero_outputs.simps[of c i m] by simp

lemma stub_zero_outputs_stop:
  "\<not> (int i < output_count c \<and> i < 32) \<Longrightarrow> stub_zero_outputs c i m = m"
  using stub_zero_outputs.simps[of c i m] by auto

lemma stub_zero_keeps_zero:
  "m a = 0 \<Longrightarrow> stub_zero_outputs c i m a = 0"
proof (induction c i m rule: stub_zero_outputs.induct)
  case (1 c i m)
  show ?case
  proof (cases "int i < output_count c \<and> i < 32")
    case True
    have "(if snd (outputs c i) \<noteq> 0 \<and> fst (outputs c i) > 0
           then memset m (snd (outputs c i)) 0 (fst (outputs c i)) else m) a = 0"
      using "1.prems" by (simp add: memset_def)
    with True "1.IH" show ?thesis
      by (simp add: stub_zero_outputs_step)
  next
    case False
    with "1.prems" show ?thesis
      by (simp add: stub_zero_outputs_stop)
  qed
qed

lemma stub_zero_covers:
  "i \<le> j \<Longrightarrow> j < 32 \<Longrightarrow> int j < output_count c \<Longrightarrow> outputs c j = (sz, buf) \<Longrightarrow> buf \<noteq> 0
   \<Longrightarrow> buf \<le> a \<Longrightarrow> a < buf + sz \<Longrightarrow> stub_zero_outputs c i m a = 0"
proof (induction c i m rule: stub_zero_outputs.induct)
  case (1 c i m)
  from "1.prems" have run: "int i < output_count c \<and> i < 32" by auto
  show ?case
  proof (cases "i = j")
    case True
    with "1.prems" have "memset m (snd (outputs c i)) 0 (fst (outputs c i)) a = 0"
      by (simp add: memset_def)
    moreover from True "1.prems" have "snd (outputs c i) \<noteq> 0 \<and> fst (outputs c i) > 0"
      by auto
    ultimately show ?thesis
      using run by (simp add: stub_zero_outputs_step stub_zero_keeps_zero)
  next
    case False
    with "1.prems" have "i + 1 \<le> j" by simp
    with run "1.IH" "1.prems" show ?thesis
      by (simp add: stub_zero_outputs_step)
  qed
qed

lemma changed_only_in_refl: "changed_only_in m m R"
  by (simp add: changed_only_in_def)

lemma changed_only_in_trans:
  "changed_only_in m m' R \<Longrightarrow> changed_only_in m' m'' R \<Longrightarrow> changed_only_in m m'' R"
  unfolding changed_only_in_def by metis

lemma changed_only_in_memset:
  "(p, n) \<in> R \<Longrightarrow> changed_only_in m (memset m p v n) R"
  by (auto simp: changed_only_in_def memset_def split: if_splits intro!: bexI[of _ "(p, n)"])


lemma stub_zero_frame:
  "changed_only_in m (stub_zero_outputs c i m) (stub_regions c)"
proof (induction c i m rule: stub_zero_outputs.induct)
  case (1 c i m)
  show ?case
  proof (cases "int i < output_count c \<and> i < 32")
    case True
    let ?m1 = "if snd (outputs c i) \<noteq> 0 \<and> fst (outputs c i) > 0
               then memset m (snd (outputs c i)) 0 (fst (outputs c i)) else m"
    have "changed_only_in m ?m1 (stub_regions c)"
    proof (cases "snd (outputs c i) \<noteq> 0 \<and> fst (outputs c i) > 0")
      case w: True
      with True have "(snd (outputs c i), fst (outputs c i)) \<in> stub_regions c"
        unfolding stub_regions_def by blast
      with w show ?thesis by (simp add: changed_only_in_memset)
    next
      case False
      then show ?thesis by (auto simp: changed_only_in_refl)
    qed
    moreover have "changed_only_in ?m1 (stub_zero_outputs c (i + 1) ?m1) (stub_regions c)"
      using True "1.IH" by simp
    ultimately have "changed_only_in m (stub_zero_outputs c (i + 1) ?m1) (stub_regions c)"
      by (rule changed_only_in_trans)
    with True show ?thesis
      by (simp add: stub_zero_outputs_step)
  next
    case False
    then show ?thesis
      by (simp add: stub_zero_outputs_stop changed_only_in_refl)
  qed
qed

lemma stub_invoke_frame:
  "changed_only_in m (snd (snd (stub_invoke c m))) (stub_regions c)"
  by (simp add: stub_invoke_def stub_zero_frame)

lemma stub_run_append:
  "stub_run (xs @ ys) s = (case stub_run xs s of None \<Rightarrow> None | Some s' \<Rightarrow> stub_run ys s')"
  by (induction xs arbitrary: s) (auto split: option.splits)

lemma stub_step_binding:
  assumes "stub_step x (c0, m0) = Some (c1, m1)" and "0 \<le> i" and "i < 32"
  shows "(case bound_output [x] i of
            Some (buf, sz) \<Rightarrow> outputs c1 (nat i) = (sz, buf) \<and> i < output_count c1
          | None \<Rightarrow> outputs c1 (nat i) = outputs c0 (nat i)
                    \<and> (i < output_count c0 \<longrightarrow> i < output_count c1))"
proof (cases x)
  case (SetInput j buf sz)
  with assms show ?thesis
    by (auto simp: stub_set_input_def split: if_splits)
next
  case (SetOutput j buf sz)
  with assms show ?thesis
    by (auto simp: stub_set_output_def nat_eq_iff split: if_splits)
next
  case Invoke
  with assms show ?thesis by (auto simp: stub_invoke_def)
next
  case (AppWrite a v)
  with assms show ?thesis by auto
qed

lemma stub_run_binding:
  assumes "stub_run calls (c0, m0) = Some (c, m)" and "0 \<le> i" and "i < 32"
  shows "(case bound_output calls i of
            Some (buf, sz) \<Rightarrow> outputs c (nat i) = (sz, buf) \<and> i < output_count c
          | None \<Rightarrow> outputs c (nat i) = outputs c0 (nat i)
                    \<and> (i < output_count c0 \<longrightarrow> i < output_count c))"
  using assms(1)
proof (induction calls arbitrary: c0 m0)
  case Nil
  then show ?case by simp
next
  case (Cons x xs)
  from Cons.prems obtain c1 m1 where
    step: "stub_step x (c0, m0) = Some (c1, m1)" and rest: "stub_run xs (c1, m1) = Some (c, m)"
    by (auto split: option.splits)
  note ih = Cons.IH[OF rest]
  note st = stub_step_binding[OF step assms(2,3)]
  show ?case
  proof (cases "bound_output xs i")
    case (Some b)
    with ih show ?thesis by simp
  next
    case None
    with ih st show ?thesis
      by (auto split: option.splits stub_call.splits if_splits)
  qed
qed

text \<open>
  Claim C2, as amended.  Take any stub context and any memory, and any sequence of
  \<open>set_input\<close>, \<open>set_output\<close> and \<open>invoke\<close> calls (with writes of the caller to its memory
  in between) in which every index is non-negative.  After an \<open>invoke\<close> that ends the
  sequence, for every index \<open>i\<close> below 32 the buffer last bound to \<open>i\<close> by \<open>set_output\<close>, if
  not null, is zero over its whole bound size, whatever the memory held before and however
  many \<open>invoke\<close> calls came earlier.
\<close>

theorem stub_invoke_zero_fills_bound_outputs:
  assumes run: "stub_run (calls @ [Invoke]) (c0, m0) = Some (c, m)"
    and bound: "bound_output calls i = Some (buf, sz)"
    and idx: "0 \<le> i" "i < 32"
    and buf: "buf \<noteq> 0"
    and a: "buf \<le> a" "a < buf + sz"
  shows "m a = 0"
proof -
  from run obtain c1 m1 where
    pre: "stub_run calls (c0, m0) = Some (c1, m1)" and
    inv: "stub_step Invoke (c1, m1) = Some (c, m)"
    by (auto simp: stub_run_append split: option.splits)
  from stub_run_binding[OF pre idx] bound
  have tab: "outputs c1 (nat i) = (sz, buf)" and cnt: "i < output_count c1"
    by simp_all
  from inv have m: "m = stub_zero_outputs c1 0 m1"
    by (simp add: stub_invoke_def)
  from idx cnt have "nat i < 32" "int (nat i) < output_count c1" by simp_all
  with tab buf a show ?thesis
    unfolding m by (intro stub_zero_covers[where j = "nat i" and sz = sz and buf = buf]) simp_all
qed

text \<open>
  Claim C2 as stated fails for "any indices": \<open>set_output\<close> with index 32 reports success,
  yet the following \<open>invoke\<close> leaves that buffer as it was.
\<close>

theorem stub_high_index_output_not_zeroed:
  "stub_set_output (snd stub_create) 32 200 4 = Some (0, snd stub_create)
   \<and> map_option (\<lambda>s. snd s 200)
        (stub_run ([SetOutput 32 200 4] @ [Invoke]) (snd stub_create, \<lambda>a. 255)) = Some 255"
  by (simp add: stub_set_output_def stub_create_def stub_invoke_def stub_zero_outputs_stop)

text \<open>
  The amended statement on a run with two inferences, the caller overwriting a byte of
  its output buffer in between.
\<close>

theorem stub_invoke_zero_fills_bound_outputs_witness:
  "map_option (\<lambda>s. snd s 101)
     (stub_run ([SetOutput 0 100 4, Invoke, AppWrite 101 7] @ [Invoke]) (snd stub_create, \<lambda>a. 255))
   = Some 0"
proof -
  obtain c m where
    r: "stub_run ([SetOutput 0 100 4, Invoke, AppWrite 101 7] @ [Invoke]) (snd stub_create, \<lambda>a. 255)
        = Some (c, m)"
    by (simp add: stub_set_output_def stub_create_def stub_invoke_def)
  have b: "bound_output [SetOutput 0 100 4, Invoke, AppWrite 101 7] 0 = Some (100, 4)"
    by simp
  have "m 101 = 0"
    using stub_invoke_zero_fills_bound_outputs[OF r b] by simp
  with r show ?thesis by simp
qed

lemma size_t_of_int_nonneg: "0 \<le> i \<Longrightarrow> i \<le> 2147483647 \<Longrightarrow> size_t_of_int i = nat i"
  by (simp add: size_t_of_int_def)

lemma stub_run_ignored_call:
  "32 \<le> index \<Longrightarrow> stub_run (SetOutput index buf sz # calls) (c, m) = stub_run calls (c, m)"
  by (simp add: stub_set_output_def)

text \<open>
  Claim C10.  For an index of 32 or more, the stub's \<open>set_output\<close> returns 0 and leaves the
  context (binding table and output count) as it was, so that every later sequence of
  calls, \<open>invoke\<close> included, runs exactly as if the call had not been made, and a
  following \<open>invoke\<close> leaves every byte outside the buffers already in the table as it
  is; the ONNX adapter's \<open>set_output\<close> returns \<open>-1\<close> for the same index.
\<close>

theorem set_output_high_index:
  assumes "32 \<le> index" and "index \<le> 2147483647"
  shows "stub_set_output c index buf sz = Some (0, c)
       \<and> stub_run (SetOutput index buf sz # calls) (c, m) = stub_run calls (c, m)
       \<and> (\<forall>c'. stub_set_output c index buf sz = Some (0, c') \<longrightarrow>
              (\<forall>r \<in> stub_regions c. \<not> (fst r \<le> a \<and> a < fst r + snd r)) \<longrightarrow>
              snd (snd (stub_invoke c' m)) a = m a)
       \<and> onnx_set_output oc index buf sz = (- 1, oc)"
proof -
  have set: "stub_set_output c index buf sz = Some (0, c)"
    using assms by (simp add: stub_set_output_def)
  have run: "stub_run (SetOutput index buf sz # calls) (c, m) = stub_run calls (c, m)"
    using assms(1) by (rule stub_run_ignored_call)
  have frame: "(\<forall>r \<in> stub_regions c. \<not> (fst r \<le> a \<and> a < fst r + snd r)) \<longrightarrow>
               snd (snd (stub_invoke c m)) a = m a"
    using stub_invoke_frame[of m c] unfolding changed_only_in_def by blast
  have onnx: "onnx_set_output oc index buf sz = (- 1, oc)"
    using assms size_t_of_int_nonneg[of index] by (simp add: onnx_set_output_def)
  from set run frame onnx show ?thesis by simp
qed

theorem set_output_high_index_witness:
  "stub_set_output (snd stub_create) 32 200 4 = Some (0, snd stub_create)
   \<and> stub_run (SetOutput 32 200 4 # [Invoke]) (snd stub_create, \<lambda>a. 255)
       = stub_run [Invoke] (snd stub_create, \<lambda>a. 255)
   \<and> snd (snd (stub_invoke (snd stub_create) (\<lambda>a. 255))) 200 = 255
   \<and> fst (onnx_set_output ex_onnx_ctx 32 200 4) = - 1"
proof -
  have none: "stub_regions (snd stub_create) = {}"
    by (simp add: stub_regions_def stub_create_def)
  show ?thesis
    using set_output_high_index[where index = 32 and c = "snd stub_create" and buf = 200
        and sz = 4 and calls = "[Invoke]" and m = "\<lambda>a. 255" and oc = ex_onnx_ctx and a = 200]
    by (simp add: none)
qed

section \<open>Properties of the adapters\<close>

text \<open>The example stub context is the one a load and one \<open>set_output\<close> call produce.\<close>

lemma ex_stub_ctx_reached:
  "stub_set_output (snd (stub_load_from_file (snd stub_create) ''/data/m.dla.onnx'')) 0 100 4
   = Some (0, ex_stub_ctx)"
  by (simp add: stub_set_output_def stub_load_from_file_def stub_create_def ex_stub_ctx_def
        fun_eq_iff)

text \<open>
  Claim C6 as stated fails for the stub adapter: after loading, the stub reports one
  input, and the size accessors still return 0 for index 5.
\<close>

theorem stub_size_accessor_succeeds_out_of_range:
  "stub_get_input_count ex_stub_ctx = (0, 1)
   \<and> stub_get_input_size ex_stub_ctx 5 = Some (0, 1024)
   \<and> stub_get_output_size ex_stub_ctx 5 = Some (0, 1024)"
  by (simp add: ex_stub_ctx_def stub_load_from_file_def stub_create_def stub_get_input_count_def
        stub_get_input_size_def stub_get_output_size_def)

text \<open>
  The TFLite adapter's size queries test only for a null interpreter and a null tensor;
  unlike the ONNX adapter's, they never compare the index with a tensor count.  With a
  library whose lookup does not look at the index either, index 99 of a model with one
  input and one output is answered with success.
\<close>

lemma tflite_size_accessor_has_no_index_check:
  "tflite_get_input_count unchecked_tflite_api ex_tflite_ctx = (0, Some 1)
   \<and> tflite_get_input_size unchecked_tflite_api ex_tflite_ctx 99 = (0, Some 4)
   \<and> tflite_get_output_count unchecked_tflite_api ex_tflite_ctx = (0, Some 1)
   \<and> tflite_get_output_size unchecked_tflite_api ex_tflite_ctx 99 = (0, Some 4)"
  by (simp add: tflite_get_input_count_def tflite_get_output_count_def tflite_get_input_size_def
        tflite_get_output_size_def unchecked_tflite_api_def ex_tflite_api_def ex_tflite_ctx_def)

text \<open>
  The stub's reported output size in terms of the calls made: after any run of calls, an
  index below 32 reports the size of the last \<open>set_output\<close> call for it, or 1024 when
  that size is zero.
\<close>

lemma stub_output_size_after_run:
  assumes "stub_run calls (c0, m0) = Some (c, m)"
    and "bound_output calls i = Some (buf, sz)" and "0 \<le> i" and "i < 32"
  shows "stub_get_output_size c i = Some (0, if sz > 0 then sz else 1024)"
  using stub_run_binding[OF assms(1,3,4)] assms(2,3,4)
  by (simp add: stub_get_output_size_def)

text \<open>
  Claim C6, as amended.  For an index that is a non-negative C \<open>int\<close>: the ONNX adapter's
  \<open>get_input_size\<close> and \<open>get_output_size\<close> return \<open>-1\<close> (and store nothing) whenever the
  index is at least the recorded number of input or output tensors; the stub adapter's
  return 0 for every index and report the size recorded in the table for that index when
  the index is below 32 and that size is not zero, and 1024 otherwise.
\<close>

theorem size_accessors_out_of_range:
  assumes "0 \<le> index" and "index \<le> 2147483647"
  shows "(int (onnx_input_count oc) \<le> index \<longrightarrow> onnx_get_input_size oc index = (- 1, None))
       \<and> (int (onnx_output_count oc) \<le> index \<longrightarrow> onnx_get_output_size oc index = (- 1, None))
       \<and> stub_get_input_size sc index =
           Some (0, if index < 32 \<and> inputs sc (nat index) > 0 then inputs sc (nat index)
                    else 1024)
       \<and> stub_get_output_size sc index =
           Some (0, if index < 32 \<and> fst (outputs sc (nat index)) > 0
                    then fst (outputs sc (nat index)) else 1024)"
  using assms size_t_of_int_nonneg[of index]
  by (auto simp: onnx_get_input_size_def onnx_get_output_size_def
        stub_get_input_size_def stub_get_output_size_def)

text \<open>
  On the example contexts, each with one input and one output: index 1 fails on the
  ONNX adapter; the stub reports the four bytes bound at output 0 and 1024 at index 1.
\<close>

theorem size_accessors_out_of_range_witness:
  "onnx_get_input_size ex_onnx_ctx 1 = (- 1, None)
   \<and> onnx_get_output_size ex_onnx_ctx 1 = (- 1, None)
   \<and> stub_get_output_size ex_stub_ctx 0 = Some (0, 4)
   \<and> stub_get_output_size ex_stub_ctx 1 = Some (0, 1024)
   \<and> stub_get_input_size ex_stub_ctx 1 = Some (0, 1024)"
  using size_accessors_out_of_range[of 1 ex_onnx_ctx ex_stub_ctx]
    size_accessors_out_of_range[of 0 ex_onnx_ctx ex_stub_ctx]
  by (simp add: ex_onnx_ctx_def ex_stub_ctx_def stub_load_from_file_def stub_create_def)













section \<open>Properties of the runtime dispatcher\<close>

lemma quiet_globals_eval:
  "g_suffix quiet_globals = ''.onnx'' \<and> g_log_level quiet_globals = 0
   \<and> model_dir (g_config quiet_globals) = []"
  by (simp add: quiet_globals_def shim_global_init_def load_suffix load_backend load_log_level load_model_dir
      neuron_shim_config_get_suffix_def precedence_def quiet_env_def file_setting_def Let_def
      atoi_def strtol10_def isspace_def isdigit_def)

lemma default_globals_eval:
  "g_suffix default_globals = ''.onnx'' \<and> g_log_level default_globals = 3
   \<and> model_dir (g_config default_globals) = []"
  by (simp add: default_globals_def shim_global_init_def load_suffix load_backend load_log_level load_model_dir
      neuron_shim_config_get_suffix_def precedence_def file_setting_def Let_def)

lemma resolve_model_not_found:
  assumes "length (resolve_format bn p s d) < 1024"
    and "\<not> readable (resolve_format bn p s d)"
  shows "neuron_shim_resolve_model bn readable (Some p) (Some s) d (Some old) 1024 =
           (- 1, Some (resolve_format bn p s d), not_found_diag p (resolve_format bn p s d) d s)"
  using assms
  by (simp add: neuron_shim_resolve_model_def snprintf_ret_def snprintf_buf_def Let_def)

lemma resolve_model_too_long:
  assumes "1024 \<le> length (resolve_format bn p s d)"
  shows "neuron_shim_resolve_model bn readable (Some p) (Some s) d (Some old) 1024 =
           (- 1, Some (take 1023 (resolve_format bn p s d)),
            [''[neuron-shim] ERROR: resolved path too long''])"
  using assms
  by (simp add: neuron_shim_resolve_model_def snprintf_ret_def snprintf_buf_def Let_def)

text \<open>
  Claim C8, as amended.  Take a valid handle and a path, and let \<open>computed\<close> be the path the
  resolver computes for it.  If \<open>computed\<close> fits the dispatcher's buffer (fewer than 1024
  bytes) and is not readable, \<open>NeuronRuntime_loadNetworkFromFile\<close> returns
  \<open>NEURONRUNTIME_BAD_DATA\<close>, calls no adapter function, and the diagnostic stream receives
  the not-found text with the requested path, the computed path and the copy command,
  whatever the log level and whether or not the requested path itself exists.  If
  \<open>computed\<close> does not fit the buffer, the return code is the same but the resolver prints
  only that the resolved path is too long.
\<close>

theorem load_unreadable_model_is_bad_data:
  assumes c: "computed = resolve_format bn p (g_suffix g) (Some (model_dir (g_config g)))"
    and r: "result = NeuronRuntime_loadNetworkFromFile bn readable g (Some rt) (Some p) st"
  shows "(length computed < 1024 \<and> \<not> readable computed \<longrightarrow>
            result =
              (NEURONRUNTIME_BAD_DATA,
               st\<lparr>stderr := stderr st @ LOG_INFO (g_log_level g) (''loadNetwork: '' @ p)
                      @ not_found_diag p computed (Some (model_dir (g_config g))) (g_suffix g)
                      @ LOG_ERR (g_log_level g) (''model not found: '' @ p @ g_suffix g)\<rparr>)
            \<and> ''    '' @ p \<in> set (stderr (snd result))
            \<and> ''    '' @ computed \<in> set (stderr (snd result))
            \<and> ''    cp your_model'' @ g_suffix g @ '' '' @ computed \<in> set (stderr (snd result)))
       \<and> (1024 \<le> length computed \<longrightarrow>
            result =
              (NEURONRUNTIME_BAD_DATA,
               st\<lparr>stderr := stderr st @ LOG_INFO (g_log_level g) (''loadNetwork: '' @ p)
                      @ [''[neuron-shim] ERROR: resolved path too long'']
                      @ LOG_ERR (g_log_level g) (''model not found: '' @ p @ g_suffix g)\<rparr>))"
proof (intro conjI impI)
  assume h: "length computed < 1024 \<and> \<not> readable computed"
  with c have res: "neuron_shim_resolve_model bn readable (Some p) (Some (g_suffix g))
             (Some (model_dir (g_config g))) (Some []) 1024 =
           (- 1, Some computed, not_found_diag p computed (Some (model_dir (g_config g))) (g_suffix g))"
    by (simp add: resolve_model_not_found)
  show eq: "result =
              (NEURONRUNTIME_BAD_DATA,
               st\<lparr>stderr := stderr st @ LOG_INFO (g_log_level g) (''loadNetwork: '' @ p)
                      @ not_found_diag p computed (Some (model_dir (g_config g))) (g_suffix g)
                      @ LOG_ERR (g_log_level g) (''model not found: '' @ p @ g_suffix g)\<rparr>)"
    unfolding r NeuronRuntime_loadNetworkFromFile_def by (simp add: res Let_def)
  show "''    '' @ p \<in> set (stderr (snd result))"
    unfolding eq by (simp add: not_found_diag_def)
  show "''    '' @ computed \<in> set (stderr (snd result))"
    unfolding eq by (simp add: not_found_diag_def)
  show "''    cp your_model'' @ g_suffix g @ '' '' @ computed \<in> set (stderr (snd result))"
    unfolding eq by (simp add: not_found_diag_def)
next
  assume h: "1024 \<le> length computed"
  with c have res: "neuron_shim_resolve_model bn readable (Some p) (Some (g_suffix g))
             (Some (model_dir (g_config g))) (Some []) 1024 =
           (- 1, Some (take 1023 computed), [''[neuron-shim] ERROR: resolved path too long''])"
    by (simp add: resolve_model_too_long)
  show "result =
              (NEURONRUNTIME_BAD_DATA,
               st\<lparr>stderr := stderr st @ LOG_INFO (g_log_level g) (''loadNetwork: '' @ p)
                      @ [''[neuron-shim] ERROR: resolved path too long'']
                      @ LOG_ERR (g_log_level g) (''model not found: '' @ p @ g_suffix g)\<rparr>)"
    unfolding r NeuronRuntime_loadNetworkFromFile_def by (simp add: res Let_def)
qed

text \<open>
  Claim C8 as stated fails: for a requested path of 1024 bytes (no such file anywhere) and
  log level 0 the call returns \<open>NEURONRUNTIME_BAD_DATA\<close>, but the only line on the
  diagnostic stream names neither path and gives no copy command.
\<close>

theorem load_too_long_path_names_no_path:
  "NeuronRuntime_loadNetworkFromFile posix_basename (\<lambda>p. False) quiet_globals (Some ex_runtime)
     (Some (replicate 1024 CHR ''a'')) ex_state
   = (NEURONRUNTIME_BAD_DATA,
      ex_state\<lparr>stderr := [''[neuron-shim] ERROR: resolved path too long'']\<rparr>)"
proof -
  have "1024 \<le> length (resolve_format posix_basename (replicate 1024 CHR ''a'') ''.onnx'' (Some []))"
    by (simp add: resolve_format_def)
  then show ?thesis
    unfolding NeuronRuntime_loadNetworkFromFile_def
    by (simp add: quiet_globals_eval resolve_model_too_long Let_def LOG_INFO_def LOG_ERR_def
          SHIM_LOG_def ex_state_def)
qed

text \<open>The test program's default path with the default configuration and no file present.\<close>

theorem load_unreadable_model_is_bad_data_witness:
  "NeuronRuntime_loadNetworkFromFile posix_basename (\<lambda>p. False) default_globals (Some ex_runtime)
     (Some ''/tmp/test_model.dla'') ex_state
   = (NEURONRUNTIME_BAD_DATA,
      ex_state\<lparr>stderr :=
        [''[neuron-shim][INFO] loadNetwork: /tmp/test_model.dla'',
         ''neuron-shim: MODEL FILE NOT FOUND'',
         ''Application requested:'',
         ''    /tmp/test_model.dla'',
         ''Shim looked for:'',
         ''    /tmp/test_model.dla.onnx'',
         ''To fix, place the converted model next to the original:'',
         ''    cp your_model.onnx /tmp/test_model.dla.onnx'',
         ''Or set model_dir in neuron-shim.conf to redirect:'',
         ''    model_dir = /opt/models'',
         ''[neuron-shim][ERROR] model not found: /tmp/test_model.dla.onnx'']\<rparr>)"
  using load_unreadable_model_is_bad_data[OF refl refl, of posix_basename "''/tmp/test_model.dla''"
      default_globals "\<lambda>p. False" ex_runtime ex_state]
  by (simp add: default_globals_eval resolve_format_def not_found_diag_def LOG_INFO_def LOG_ERR_def
        SHIM_LOG_def ex_state_def)

text \<open>
  Claim C5, as amended.  \<open>release\<close>, \<open>loadNetworkFromFile\<close>, \<open>loadNetworkFromBuffer\<close>,
  \<open>setInput\<close>, \<open>setOutput\<close>, the count, size and info queries and \<open>inference\<close> return
  \<open>NEURONRUNTIME_UNEXPECTED_NULL\<close> on a null handle, and so do \<open>loadNetworkFromFile\<close> on a
  null path, \<open>loadNetworkFromBuffer\<close> on a null buffer and the queries on a null
  out-pointer; in each case the state, with its record of adapter calls, is returned as it
  was.  \<open>setQoSOption\<close> and \<open>getProfiledQoSData\<close> return \<open>NEURONRUNTIME_NO_ERROR\<close> for any
  handle, null included, and call no adapter function either.  (A null buffer given to
  \<open>setInput\<close> or \<open>setOutput\<close> is not part of this statement.)
\<close>

theorem null_arguments_rejected_before_adapter:
  "NeuronRuntime_release (None :: ('c, 'x) ShimRuntime option) st
       = (NEURONRUNTIME_UNEXPECTED_NULL, st)
   \<and> NeuronRuntime_loadNetworkFromFile bn readable g (None :: ('c, 'x) ShimRuntime option) path st
       = (NEURONRUNTIME_UNEXPECTED_NULL, st)
   \<and> NeuronRuntime_loadNetworkFromFile bn readable g (runtime :: ('c, 'x) ShimRuntime option) None st
       = (NEURONRUNTIME_UNEXPECTED_NULL, st)
   \<and> NeuronRuntime_loadNetworkFromBuffer (None :: ('c, 'x) ShimRuntime option) buffer sz st
       = (NEURONRUNTIME_UNEXPECTED_NULL, st)
   \<and> NeuronRuntime_loadNetworkFromBuffer runtime 0 sz st
       = (NEURONRUNTIME_UNEXPECTED_NULL, st)
   \<and> NeuronRuntime_setInput (None :: ('c, 'x) ShimRuntime option) index buffer sz padding st
       = (NEURONRUNTIME_UNEXPECTED_NULL, st)
   \<and> NeuronRuntime_setOutput (None :: ('c, 'x) ShimRuntime option) index buffer sz padding st
       = (NEURONRUNTIME_UNEXPECTED_NULL, st)
   \<and> NeuronRuntime_getInputCount (None :: ('c, 'x) ShimRuntime option) ptr st
       = (NEURONRUNTIME_UNEXPECTED_NULL, st)
   \<and> NeuronRuntime_getInputCount runtime 0 st
       = (NEURONRUNTIME_UNEXPECTED_NULL, st)
   \<and> NeuronRuntime_getOutputCount (None :: ('c, 'x) ShimRuntime option) ptr st
       = (NEURONRUNTIME_UNEXPECTED_NULL, st)
   \<and> NeuronRuntime_getOutputCount runtime 0 st
       = (NEURONRUNTIME_UNEXPECTED_NULL, st)
   \<and> NeuronRuntime_getInputSize (None :: ('c, 'x) ShimRuntime option) index ptr st
       = (NEURONRUNTIME_UNEXPECTED_NULL, st)
   \<and> NeuronRuntime_getInputSize runtime index 0 st
       = (NEURONRUNTIME_UNEXPECTED_NULL, st)
   \<and> NeuronRuntime_getOutputSize (None :: ('c, 'x) ShimRuntime option) index ptr st
       = (NEURONRUNTIME_UNEXPECTED_NULL, st)
   \<and> NeuronRuntime_getOutputSize runtime index 0 st
       = (NEURONRUNTIME_UNEXPECTED_NULL, st)
   \<and> NeuronRuntime_getInputInfo (None :: ('c, 'x) ShimRuntime option) index ptr st
       = (NEURONRUNTIME_UNEXPECTED_NULL, st)
   \<and> NeuronRuntime_getInputInfo runtime index 0 st
       = (NEURONRUNTIME_UNEXPECTED_NULL, st)
   \<and> NeuronRuntime_getOutputInfo (None :: ('c, 'x) ShimRuntime option) index ptr st
       = (NEURONRUNTIME_UNEXPECTED_NULL, st)
   \<and> NeuronRuntime_getOutputInfo runtime index 0 st
       = (NEURONRUNTIME_UNEXPECTED_NULL, st)
   \<and> NeuronRuntime_inference (None :: ('c, 'x) ShimRuntime option) st
       = (NEURONRUNTIME_UNEXPECTED_NULL, st)
   \<and> NeuronRuntime_setQoSOption runtime ptr st = (NEURONRUNTIME_NO_ERROR, st)
   \<and> fst (NeuronRuntime_getProfiledQoSData runtime ptr st) = NEURONRUNTIME_NO_ERROR
   \<and> adapter_calls (snd (NeuronRuntime_getProfiledQoSData runtime ptr st)) = adapter_calls st"
  by (simp add: NeuronRuntime_release_def NeuronRuntime_loadNetworkFromFile_def
        NeuronRuntime_loadNetworkFromBuffer_def NeuronRuntime_setInput_def
        NeuronRuntime_setOutput_def NeuronRuntime_getInputCount_def
        NeuronRuntime_getOutputCount_def NeuronRuntime_getInputSize_def
        NeuronRuntime_getOutputSize_def NeuronRuntime_getInputInfo_def
        NeuronRuntime_getOutputInfo_def NeuronRuntime_inference_def
        NeuronRuntime_setQoSOption_def NeuronRuntime_getProfiledQoSData_def
        split: option.splits)

text \<open>
  Claim C5 as stated fails: \<open>setQoSOption\<close> on a null handle reports success, and
  \<open>setInput\<close> and \<open>setOutput\<close> pass a null buffer on to the adapter.
\<close>

theorem qos_and_null_buffer_not_rejected:
  "NeuronRuntime_setQoSOption (None :: (unit, unit) ShimRuntime option) 0 ex_state
     = (NEURONRUNTIME_NO_ERROR, ex_state)
   \<and> NEURONRUNTIME_NO_ERROR \<noteq> NEURONRUNTIME_UNEXPECTED_NULL
   \<and> NeuronRuntime_setInput (Some ex_runtime) 0 0 4 (- 1) ex_state
     = (NEURONRUNTIME_NO_ERROR, ex_state\<lparr>adapter_calls := [CallSetInput 0 0 4]\<rparr>)
   \<and> NeuronRuntime_setOutput (Some ex_runtime) 0 0 4 (- 1) ex_state
     = (NEURONRUNTIME_NO_ERROR, ex_state\<lparr>adapter_calls := [CallSetOutput 0 0 4]\<rparr>)"
  by (simp add: NeuronRuntime_setQoSOption_def NEURONRUNTIME_NO_ERROR_def
        NEURONRUNTIME_UNEXPECTED_NULL_def NeuronRuntime_setInput_def NeuronRuntime_setOutput_def
        forwarded_def ex_runtime_def ex_backend_def ex_state_def)

text \<open>Three of the cases on the example handle and state.\<close>

theorem null_arguments_rejected_before_adapter_witness:
  "NeuronRuntime_inference (None :: (unit, unit) ShimRuntime option) ex_state
     = (NEURONRUNTIME_UNEXPECTED_NULL, ex_state)
   \<and> NeuronRuntime_getInputCount (Some ex_runtime) 0 ex_state
     = (NEURONRUNTIME_UNEXPECTED_NULL, ex_state)
   \<and> NeuronRuntime_loadNetworkFromFile posix_basename (\<lambda>p. True) default_globals
       (Some ex_runtime) None ex_state
     = (NEURONRUNTIME_UNEXPECTED_NULL, ex_state)"
  using null_arguments_rejected_before_adapter[where st = ex_state and bn = posix_basename
      and readable = "\<lambda>p. True" and g = default_globals and runtime = "Some ex_runtime"]
  by simp

end
